theory Spec2Isabelle
  imports Complex_Main
begin

section \<open>Numbers: exact arithmetic with the IEEE special values\<close>

text \<open>
  The source computes on TensorFlow tensors of floating-point numbers. The embedding keeps
  the three special values that decide the control flow of the source (the infinities and
  NaN: \<open>tf.check_numerics\<close> raises on them, comparisons with NaN are false, a division by
  zero yields them) and computes exactly on the finite values: \<open>Fin r\<close> is the number
  \<open>r\<close>, without rounding and without overflow. There is one zero, treated as positive.
\<close>

datatype fl = Fin real | PInf | NInf | NaN

fun is_finite :: "fl \<Rightarrow> bool" where
  "is_finite (Fin _) = True"
| "is_finite _ = False"

fun the_fin :: "fl \<Rightarrow> real" where
  "the_fin (Fin r) = r"
| "the_fin _ = 0"

fun sign_of :: "fl \<Rightarrow> real" where
  "sign_of (Fin a) = sgn a"
| "sign_of PInf = 1"
| "sign_of NInf = - 1"
| "sign_of NaN = 0"

definition signed_inf :: "real \<Rightarrow> fl" where
  "signed_inf s = (if 0 < s then PInf else if s < 0 then NInf else NaN)"

instantiation fl :: "{uminus, plus, minus, times, inverse, abs, ord}"
begin

fun uminus_fl :: "fl \<Rightarrow> fl" where
  "- Fin a = Fin (- a)"
| "- PInf = NInf"
| "- NInf = PInf"
| "- NaN = NaN"

fun plus_fl :: "fl \<Rightarrow> fl \<Rightarrow> fl" where
  "Fin a + Fin b = Fin (a + b)"
| "NaN + _ = NaN"
| "_ + NaN = NaN"
| "PInf + NInf = NaN"
| "NInf + PInf = NaN"
| "PInf + _ = PInf"
| "_ + PInf = PInf"
| "NInf + _ = NInf"
| "_ + NInf = NInf"

definition minus_fl :: "fl \<Rightarrow> fl \<Rightarrow> fl" where
  "minus_fl a b = a + (- b)"

fun times_fl :: "fl \<Rightarrow> fl \<Rightarrow> fl" where
  "Fin a * Fin b = Fin (a * b)"
| "NaN * _ = NaN"
| "_ * NaN = NaN"
| "x * y = signed_inf (sign_of x * sign_of y)"

fun divide_fl :: "fl \<Rightarrow> fl \<Rightarrow> fl" where
  "Fin a div Fin b = (if b = 0 then signed_inf (sgn a) else Fin (a / b))"
| "NaN div _ = NaN"
| "_ div NaN = NaN"
| "Fin _ div _ = Fin 0"
| "x div Fin b = signed_inf (sign_of x * (if b < 0 then - 1 else 1))"
| "_ div _ = NaN"

definition inverse_fl :: "fl \<Rightarrow> fl" where
  "inverse_fl a = Fin 1 div a"

fun abs_fl :: "fl \<Rightarrow> fl" where
  "\<bar>Fin a\<bar> = Fin \<bar>a\<bar>"
| "\<bar>NaN\<bar> = NaN"
| "\<bar>_\<bar> = PInf"

fun less_fl :: "fl \<Rightarrow> fl \<Rightarrow> bool" where
  "Fin a < Fin b = (a < b)"
| "Fin _ < PInf = True"
| "NInf < Fin _ = True"
| "NInf < PInf = True"
| "(_::fl) < _ = False"

definition less_eq_fl :: "fl \<Rightarrow> fl \<Rightarrow> bool" where
  "less_eq_fl a b = (a < b \<or> (a = b \<and> a \<noteq> NaN))"

instance ..

end

fun tf_exp :: "fl \<Rightarrow> fl" where
  "tf_exp (Fin a) = Fin (exp a)"
| "tf_exp PInf = PInf"
| "tf_exp NInf = Fin 0"
| "tf_exp NaN = NaN"

fun tf_log :: "fl \<Rightarrow> fl" where
  "tf_log (Fin a) = (if 0 < a then Fin (ln a) else if a = 0 then NInf else NaN)"
| "tf_log PInf = PInf"
| "tf_log _ = NaN"

definition tf_log1p :: "fl \<Rightarrow> fl" where
  "tf_log1p x = tf_log (Fin 1 + x)"

fun tf_sqrt :: "fl \<Rightarrow> fl" where
  "tf_sqrt (Fin a) = (if 0 \<le> a then Fin (sqrt a) else NaN)"
| "tf_sqrt PInf = PInf"
| "tf_sqrt _ = NaN"

fun tf_rsqrt :: "fl \<Rightarrow> fl" where
  "tf_rsqrt (Fin a) = (if 0 < a then Fin (1 / sqrt a) else if a = 0 then PInf else NaN)"
| "tf_rsqrt PInf = Fin 0"
| "tf_rsqrt _ = NaN"

fun tf_maximum :: "fl \<Rightarrow> fl \<Rightarrow> fl" where
  \<comment> \<open>\<open>tf.maximum\<close>; a NaN operand gives NaN\<close>
  "tf_maximum NaN _ = NaN"
| "tf_maximum _ NaN = NaN"
| "tf_maximum a b = (if a < b then b else a)"

text \<open>
  The TensorFlow primitives \<open>tf.math.bessel_i0e\<close> and \<open>tf.math.bessel_i1e\<close> are not
  code of the repository. They are taken by their documented meaning, the modified Bessel
  functions of the first kind of orders 0 and 1 (as power series), scaled by
  \<open>exp (- \<bar>x\<bar>)\<close>; both tend to 0 at the infinities.
\<close>

definition bessel_i0 :: "real \<Rightarrow> real" where
  "bessel_i0 x = (\<Sum>k. (x / 2) ^ (2 * k) / (fact k * fact k))"

definition bessel_i1 :: "real \<Rightarrow> real" where
  "bessel_i1 x = (\<Sum>k. (x / 2) ^ (2 * k + 1) / (fact k * fact (k + 1)))"

fun tf_bessel_i0e :: "fl \<Rightarrow> fl" where
  "tf_bessel_i0e (Fin x) = Fin (exp (- \<bar>x\<bar>) * bessel_i0 x)"
| "tf_bessel_i0e NaN = NaN"
| "tf_bessel_i0e _ = Fin 0"

fun tf_bessel_i1e :: "fl \<Rightarrow> fl" where
  "tf_bessel_i1e (Fin x) = Fin (exp (- \<bar>x\<bar>) * bessel_i1 x)"
| "tf_bessel_i1e NaN = NaN"
| "tf_bessel_i1e _ = Fin 0"

section \<open>Tensors and errors\<close>

text \<open>
  A tensor of shape \<open>[k]\<close> is the list of its \<open>k\<close> entries, one of shape \<open>[k, D]\<close> the
  list of its \<open>k\<close> rows. The arithmetic of the source is elementwise; \<open>tf.where\<close> selects
  elementwise.
\<close>

definition tf_where :: "bool list \<Rightarrow> 'a list \<Rightarrow> 'a list \<Rightarrow> 'a list" where
  "tf_where c a b = map (\<lambda>(c, a, b). if c then a else b) (zip c (zip a b))"

definition ones_like :: "fl list \<Rightarrow> fl list" where
  "ones_like z = map (\<lambda>_. Fin 1) z"

definition zeros_like :: "fl list \<Rightarrow> fl list" where
  "zeros_like z = map (\<lambda>_. Fin 0) z"

text \<open>
  \<open>ValueError\<close> and \<open>KeyError\<close> are Python's. \<open>InvalidArgumentError msg\<close> is what a failed
  \<open>tf.assert_*\<close> or \<open>tf.check_numerics\<close> raises; \<open>BesselNotFinite v\<close> is the
  \<open>InvalidArgumentError\<close> of \<open>check_numerics\<close> with the message \<open>besseli\<close> followed by the
  order \<open>v\<close>.
\<close>

datatype error =
    ValueError string
  | KeyError rat
  | InvalidArgumentError string
  | BesselNotFinite rat

text \<open>
  A binary operation of TensorFlow, such as \<open>*\<close> or \<open>-\<close>, broadcasts its operands:
  along every axis the two lengths have to be equal, or one of them is 1 and the one
  entry of that operand is repeated. Otherwise the operation raises the shape error
  (\<open>InvalidArgumentError\<close> with the message \<open>Incompatible shapes\<close>; TensorFlow reports it as
  \<open>ValueError\<close> when it finds the mismatch in the static shapes). \<open>tf_binary\<close> is the
  operation on tensors of shape \<open>[k]\<close>, \<open>tf_binary2\<close> the one on tensors of shape
  \<open>[k, D]\<close>, where both axes are broadcast.
\<close>

definition shape_error :: error where
  "shape_error = InvalidArgumentError ''Incompatible shapes''"

definition broadcast :: "'a list \<Rightarrow> 'a list \<Rightarrow> ('a list \<times> 'a list) option" where
  "broadcast a b =
     (if length a = length b then Some (a, b)
      else if length a = 1 then Some (replicate (length b) (hd a), b)
      else if length b = 1 then Some (a, replicate (length a) (hd b))
      else None)"

definition tf_binary :: "(fl \<Rightarrow> fl \<Rightarrow> fl) \<Rightarrow> fl list \<Rightarrow> fl list \<Rightarrow> error + fl list" where
  "tf_binary f a b =
     (case broadcast a b of
        None \<Rightarrow> Inl shape_error
      | Some (a', b') \<Rightarrow> Inr (map2 f a' b'))"

fun collect :: "(error + 'a) list \<Rightarrow> error + 'a list" where
  \<comment> \<open>the rows of a result, or the first error among them\<close>
  "collect [] = Inr []"
| "collect (Inl e # _) = Inl e"
| "collect (Inr x # rs) = (case collect rs of Inl e \<Rightarrow> Inl e | Inr xs \<Rightarrow> Inr (x # xs))"

definition tf_binary2 ::
  "(fl \<Rightarrow> fl \<Rightarrow> fl) \<Rightarrow> fl list list \<Rightarrow> fl list list \<Rightarrow> error + fl list list" where
  "tf_binary2 f a b =
     (case broadcast a b of
        None \<Rightarrow> Inl shape_error
      | Some (a', b') \<Rightarrow> collect (map2 (tf_binary f) a' b'))"

section \<open>The scaled Bessel evaluator\<close>

text \<open>
  \<open>_bessel_ive(v, z, cache=None)\<close>. Every call in the source leaves \<open>cache\<close> at its default,
  so \<open>cache or {}\<close> is a fresh empty dictionary, \<open>v in cache\<close> is false, and the dictionary
  only carries the value a branch assigns to the \<open>return\<close>; the empty dictionary handed to
  the recursive calls is falsy and replaced by a fresh one there too. The embedding keeps
  the assigned value (\<open>None\<close> when no branch assigns one, where \<open>cache[v]\<close> raises
  \<open>KeyError\<close>). The order \<open>v\<close> is \<open>event_dim / 2\<close>, a multiple of one half.
\<close>

definition wrap :: "rat \<Rightarrow> fl list \<Rightarrow> error + fl list" where
  "wrap v result = (if list_all is_finite result then Inr result else Inl (BesselNotFinite v))"

definition sinhe :: "fl \<Rightarrow> fl" where
  "sinhe x = (tf_exp (x - \<bar>x\<bar>) - tf_exp (- x - \<bar>x\<bar>)) / Fin 2"

definition coshe :: "fl \<Rightarrow> fl" where
  "coshe x = (tf_exp (x - \<bar>x\<bar>) + tf_exp (- x - \<bar>x\<bar>)) / Fin 2"

function bessel_ive :: "rat \<Rightarrow> fl list \<Rightarrow> error + fl list" where
  "bessel_ive v z =
     (if 2 \<le> v then
        Inl (ValueError ''Evaluating bessel_i by recurrence becomes imprecise for large v'')
      else
        let safe_z = tf_where (map (\<lambda>x. Fin 0 < x) z) z (ones_like z);
            cache_v =
              (if v = 0 then Some (map tf_bessel_i0e z)
               else if v = 1 then Some (map tf_bessel_i1e z)
               else if v = 1 / 2 then
                 Some (map2 (\<lambda>s r. Fin (sqrt (2 / pi)) * s * r) (map sinhe z)
                         (tf_where (map (\<lambda>x. Fin 0 < x) z) (map tf_rsqrt safe_z)
                            (ones_like safe_z)))
               else if v = - 1 / 2 then
                 Some (map2 (\<lambda>s r. Fin (sqrt (2 / pi)) * s * r) (map coshe z)
                         (tf_where (map (\<lambda>x. Fin 0 < x) z) (map tf_rsqrt safe_z)
                            (ones_like safe_z)))
               else None)
        in if v \<le> 1 then
             (case cache_v of None \<Rightarrow> Inl (KeyError v) | Some r \<Rightarrow> wrap v r)
           else
             (case bessel_ive (v - 2) z of
                Inl e \<Rightarrow> Inl e
              | Inr a \<Rightarrow>
                  (case bessel_ive (v - 1) z of
                     Inl e \<Rightarrow> Inl e
                   | Inr b \<Rightarrow>
                       wrap v (map2 (\<lambda>a q. a - q)  a
                                 (map2 (\<lambda>b z. Fin (of_rat (2 * (v - 1))) * b / z) b z)))))"
  by pat_completeness auto
termination
  by (relation "measure (\<lambda>(v, z). if 1 < v \<and> v < 2 then 1 else 0)") auto

declare bessel_ive.simps [simp del]

section \<open>The distribution\<close>

text \<open>
  The parameters after broadcasting: \<open>mean_direction\<close> has shape \<open>[k, D]\<close> and
  \<open>concentration\<close> shape \<open>[k]\<close>, for one batch axis of length \<open>k\<close>. \<open>event_dim\<close> is
  \<open>self.event_shape[0].value\<close>, the statically known last dimension of \<open>mean_direction\<close>
  (\<open>None\<close> when the static shape does not give it).
\<close>

record vmf =
  mean_direction :: "fl list list"
  concentration :: "fl list"
  event_dim :: "nat option"
  validate_args :: bool
  allow_nan_stats :: bool

definition reduce_sum :: "fl list \<Rightarrow> fl" where
  "reduce_sum xs = foldr (+) xs (Fin 0)"

definition norm_fl :: "fl list \<Rightarrow> fl" where
  \<comment> \<open>\<open>tf.linalg.norm(x, axis=-1)\<close> of one row\<close>
  "norm_fl x = tf_sqrt (reduce_sum (map2 (*) x x))"

definition last_dim :: "fl list list \<Rightarrow> nat" where
  \<comment> \<open>\<open>tf.shape(t)[-1]\<close>, read off the first row\<close>
  "last_dim t = (case t of [] \<Rightarrow> 0 | r # _ \<Rightarrow> length r)"

definition dtype_eps :: real where
  \<comment> \<open>the machine epsilon of \<open>tf.float32\<close>, the default dtype of the parameters\<close>
  "dtype_eps = 1 / 2 ^ 23"

definition assert_near :: "fl \<Rightarrow> fl \<Rightarrow> real \<Rightarrow> real \<Rightarrow> bool" where
  \<comment> \<open>\<open>tf.assert_near(x, y, rtol, atol)\<close> holds when \<open>|x - y| \<le> atol + rtol * |y|\<close>\<close>
  "assert_near x y rtol atol = (\<bar>x - y\<bar> \<le> Fin atol + Fin rtol * \<bar>y\<bar>)"

definition init :: "fl list list \<Rightarrow> fl list \<Rightarrow> bool \<Rightarrow> bool \<Rightarrow> bool \<Rightarrow> error + vmf" where
  \<comment> \<open>\<open>VonMisesFisher.__init__(mean_direction, concentration, validate_args,
      allow_nan_stats)\<close>, with the arguments written \<open>md\<close>, \<open>conc\<close>, \<open>validate\<close>, \<open>allow_nan\<close>;
      \<open>static_shape\<close> says whether the last dimension of \<open>mean_direction\<close> is statically
      known. The \<open>ValueError\<close> of a statically known dimension is raised by the constructor
      itself; the assertions guard the stored parameters and run when these are evaluated:
      a failed one is the result of the construction.\<close>
  "init md conc static_shape validate allow_nan =
     (let assertions =
            (if validate then
               [(list_all (\<lambda>c. Fin 0 \<le> c) conc,
                 ''`concentration` must be non-negative''),
                (1 < last_dim md,
                 ''`mean_direction` may not have scalar event shape''),
                (list_all (\<lambda>m. assert_near (Fin 1) (norm_fl m) (10 * dtype_eps) (10 * dtype_eps))
                   md,
                 ''`mean_direction` must be unit-length'')]
             else [])
      in if static_shape \<and> 5 < last_dim md then
           Inl (ValueError ''vMF ndims > 5 is not currently supported'')
         else
           let assertions =
                 (if \<not> static_shape \<and> validate then
                    assertions @ [(last_dim md \<le> 5,
                                   ''vMF ndims > 5 is not currently supported'')]
                  else assertions)
           in (case filter (\<lambda>(ok, msg). \<not> ok) assertions of
                 (_, msg) # _ \<Rightarrow> Inl (InvalidArgumentError msg)
               | [] \<Rightarrow>
                   Inr \<lparr>mean_direction = md, concentration = conc,
                        event_dim = (if static_shape then Some (last_dim md) else None),
                        validate_args = validate, allow_nan_stats = allow_nan\<rparr>))"

definition maybe_assert_valid_sample :: "vmf \<Rightarrow> fl list list \<Rightarrow> error + fl list list" where
  "maybe_assert_valid_sample d samples =
     (if \<not> validate_args d then Inr samples
      else if \<not> list_all (\<lambda>s. assert_near (Fin 1) (norm_fl s) (10 * dtype_eps) (10 * dtype_eps))
                  samples
      then Inl (InvalidArgumentError ''samples must be unit length'')
      else if last_dim samples \<noteq> last_dim (mean_direction d)
      then Inl (InvalidArgumentError
                  ''samples must have innermost dimension matching that of `self.mean_direction`'')
      else Inr samples)"

definition bcast_mean_dir :: "vmf \<Rightarrow> error + fl list list" where
  \<comment> \<open>\<open>self.mean_direction + tf.zeros_like(self.concentration)[..., tf.newaxis]\<close>: the
      second operand has shape \<open>[k, 1]\<close>\<close>
  "bcast_mean_dir d =
     tf_binary2 (+) (mean_direction d) (map (\<lambda>z. [z]) (zeros_like (concentration d)))"

definition log_unnormalized_prob :: "vmf \<Rightarrow> fl list list \<Rightarrow> error + fl list" where
  \<comment> \<open>\<open>samples\<close> has shape \<open>[k', D']\<close>; the product \<open>samples * bcast_mean_dir\<close> broadcasts
      both axes against \<open>[k, D]\<close> and raises when the shapes do not fit, and so does the
      product with \<open>self.concentration\<close>\<close>
  "log_unnormalized_prob d samples0 =
     (case maybe_assert_valid_sample d samples0 of
        Inl e \<Rightarrow> Inl e
      | Inr samples \<Rightarrow>
          (case bcast_mean_dir d of
             Inl e \<Rightarrow> Inl e
           | Inr bcast \<Rightarrow>
               (case tf_binary2 (*) samples bcast of
                  Inl e \<Rightarrow> Inl e
                | Inr products \<Rightarrow>
                    let inner_product = map reduce_sum products
                    in tf_binary (*) (concentration d) inner_product)))"

text \<open>
  \<open>tf.lgamma\<close> is only called at \<open>event_dim / 2\<close>. There the Gamma function has the closed
  form given by \<open>\<Gamma>(1/2) = sqrt \<pi>\<close>, \<open>\<Gamma>(1) = 1\<close> and \<open>\<Gamma>(x + 1) = x * \<Gamma>(x)\<close>;
  \<open>gamma_half n\<close> is \<open>\<Gamma>(n / 2)\<close> for \<open>n \<ge> 1\<close>.
\<close>

fun gamma_half :: "nat \<Rightarrow> real" where
  "gamma_half 0 = 0"
| "gamma_half (Suc 0) = sqrt pi"
| "gamma_half (Suc (Suc 0)) = 1"
| "gamma_half (Suc (Suc n)) = (real n / 2) * gamma_half n"

definition tf_lgamma_half :: "nat \<Rightarrow> fl" where
  \<comment> \<open>\<open>tf.lgamma(n / 2)\<close>; the Gamma function has a pole at 0\<close>
  "tf_lgamma_half n = (if n = 0 then PInf else Fin (ln (gamma_half n)))"

definition safe_conc :: "vmf \<Rightarrow> fl list" where
  "safe_conc d =
     tf_where (map (\<lambda>c. Fin 0 < c) (concentration d)) (concentration d)
       (ones_like (concentration d))"

definition log_normalization :: "vmf \<Rightarrow> error + fl list" where
  "log_normalization d =
     (case event_dim d of
        None \<Rightarrow>
          Inl (ValueError
                 ''vMF _log_normalizer currently only supports statically known event shape'')
      | Some n \<Rightarrow>
          (case bessel_ive (of_nat n / 2 - 1) (safe_conc d) of
             Inl e \<Rightarrow> Inl e
           | Inr ive \<Rightarrow>
               let safe_lognorm =
                     map2 (\<lambda>c i. Fin (real n / 2 - 1) * tf_log c - Fin (real n / 2 * ln (2 * pi))
                                   - tf_log i - \<bar>c\<bar>)
                       (safe_conc d) ive;
                   log_nsphere_surface_area =
                     Fin (ln 2 + real n / 2 * ln pi) - tf_lgamma_half n
               in Inr (tf_where (map (\<lambda>c. Fin 0 < c) (concentration d))
                         (map uminus safe_lognorm)
                         (map (\<lambda>one. log_nsphere_surface_area * one) (ones_like safe_lognorm)))))"

definition log_prob :: "vmf \<Rightarrow> fl list list \<Rightarrow> error + fl list" where
  "log_prob d x0 =
     (case maybe_assert_valid_sample d x0 of
        Inl e \<Rightarrow> Inl e
      | Inr x \<Rightarrow>
          (case log_unnormalized_prob d x of
             Inl e \<Rightarrow> Inl e
           | Inr unnormalized \<Rightarrow>
               (case log_normalization d of
                  Inl e \<Rightarrow> Inl e
                | Inr normalization \<Rightarrow> tf_binary (\<lambda>u n. u - n) unnormalized normalization)))"

definition mean :: "vmf \<Rightarrow> error + fl list list" where
  "mean d =
     (case event_dim d of
        None \<Rightarrow> Inl (ValueError ''event shape must be statically known for _bessel_ive'')
      | Some n \<Rightarrow>
          (case bessel_ive (of_nat n / 2) (safe_conc d) of
             Inl e \<Rightarrow> Inl e
           | Inr num \<Rightarrow>
               (case bessel_ive (of_nat n / 2 - 1) (safe_conc d) of
                  Inl e \<Rightarrow> Inl e
                | Inr den \<Rightarrow>
                    let safe_mean =
                          map2 (\<lambda>m h. map (\<lambda>x. x * h) m) (mean_direction d)
                            (map2 (\<lambda>a b. a / b) num den)
                    in Inr (map2 (\<lambda>c m. tf_where (map (\<lambda>zero. zero < c) (zeros_like m)) m
                                            (zeros_like m))
                              (concentration d) safe_mean))))"

section \<open>Rotation to the mean direction\<close>

text \<open>
  \<open>tf.nn.l2_normalize(x, axis=-1)\<close> multiplies \<open>x\<close> by
  \<open>rsqrt(maximum(reduce_sum(square(x)), epsilon))\<close>, with the default
  \<open>epsilon = 1e-12\<close>.
\<close>

definition l2_normalize :: "fl list \<Rightarrow> fl list" where
  "l2_normalize x =
     (let square_sum = reduce_sum (map (\<lambda>a. a * a) x);
          x_inv_norm = tf_rsqrt (tf_maximum square_sum (Fin (1 / 10 ^ 12)))
      in map (\<lambda>a. a * x_inv_norm) x)"

definition the_event_dim :: "vmf \<Rightarrow> nat" where
  \<comment> \<open>\<open>self.event_shape[0].value or self._event_shape_tensor()[0]\<close>\<close>
  "the_event_dim d =
     (case event_dim d of
        None \<Rightarrow> last_dim (mean_direction d)
      | Some n \<Rightarrow> if n = 0 then last_dim (mean_direction d) else n)"

definition basis_vector :: "nat \<Rightarrow> fl list" where
  \<comment> \<open>\<open>tf.concat([[1.], tf.zeros([event_dim - 1])], axis=0)\<close>, for \<open>event_dim \<ge> 1\<close>
      (\<open>tf.zeros\<close> refuses a negative length)\<close>
  "basis_vector n = Fin 1 # replicate (n - 1) (Fin 0)"

definition householder :: "fl list \<Rightarrow> fl list \<Rightarrow> fl list" where
  \<comment> \<open>one row of \<open>samples - 2 * tf.reduce_sum(samples * u, axis=-1, keepdims=True) * u\<close>\<close>
  "householder u x = map2 (\<lambda>a q. a - q) x (map (\<lambda>c. Fin 2 * reduce_sum (map2 (*) x u) * c) u)"

definition rotate_vmf :: "vmf \<Rightarrow> fl list list list \<Rightarrow> fl list list list" where
  \<comment> \<open>\<open>VonMisesFisher._rotate\<close> (the name \<open>rotate\<close> is a constant of the list library);
      \<open>samples\<close> has shape \<open>[n, k, D]\<close>; \<open>u\<close> has shape \<open>[k, D]\<close> and is broadcast over
      the \<open>n\<close> samples\<close>
  "rotate_vmf d samples =
     (let basis = basis_vector (the_event_dim d);
          u = map (\<lambda>m. l2_normalize (map2 (\<lambda>a q. a - q) basis m)) (mean_direction d)
      in map (\<lambda>s. map2 (\<lambda>x u. householder u x) s u) samples)"

section \<open>Sampling\<close>

text \<open>
  The random draws are inputs of the embedding, in the order in which the source requests
  them: \<open>uniform_3d\<close> is the \<open>tf.random_uniform\<close> of \<open>_sample_3d\<close> (shape \<open>[n, k]\<close>),
  \<open>beta_draw i\<close> and \<open>uniform_draw i\<close> are the Beta and the uniform draw of the \<open>i\<close>-th run
  of the loop body (shape \<open>[n, k]\<close> each), and \<open>normal_draw\<close> is the \<open>tf.random_normal\<close> of
  shape \<open>[n, k, D - 1]\<close>.
\<close>

record draws =
  uniform_3d :: "fl list list"
  beta_draw :: "nat \<Rightarrow> fl list list"
  uniform_draw :: "nat \<Rightarrow> fl list list"
  normal_draw :: "fl list list list"

definition reduce_logsumexp2 :: "fl \<Rightarrow> fl \<Rightarrow> fl" where
  \<comment> \<open>\<open>tf.reduce_logsumexp([a, b], axis=0)\<close> at one position: the maximum is subtracted
      when it is finite\<close>
  "reduce_logsumexp2 a b =
     (let raw_max = tf_maximum a b;
          my_max = (if is_finite raw_max then raw_max else Fin 0)
      in tf_log (tf_exp (a - my_max) + tf_exp (b - my_max)) + my_max)"

definition check_numerics2 :: "fl list list \<Rightarrow> string \<Rightarrow> error + fl list list" where
  \<comment> \<open>\<open>tf.check_numerics(t, msg)\<close> on a tensor of shape \<open>[n, k]\<close>\<close>
  "check_numerics2 t msg =
     (if list_all (list_all is_finite) t then Inr t else Inl (InvalidArgumentError msg))"

definition sample_3d :: "vmf \<Rightarrow> fl list list \<Rightarrow> error + fl list list" where
  \<comment> \<open>\<open>z\<close> is the uniform draw; the result is \<open>u\<close>, before \<open>[..., tf.newaxis]\<close>\<close>
  "sample_3d d z =
     (let safe_z = map (\<lambda>zr. tf_where (map (\<lambda>z. Fin 0 < z) zr) zr (ones_like zr)) z;
          safe_u =
            map (\<lambda>zr. map2 (\<lambda>c z. Fin 1 + reduce_logsumexp2 (tf_log z)
                                         (tf_log1p (- z) - Fin 2 * c) / c)
                         (safe_conc d) zr) safe_z;
          u = map2 (\<lambda>su zr. tf_where (map (\<lambda>c. Fin 0 < c) (concentration d)) su
                               (map (\<lambda>z. Fin 2 * z - Fin 1) zr)) safe_u z;
          u = map2 (\<lambda>ur zr. tf_where (map (\<lambda>z. z = Fin 0) zr) (map (\<lambda>_. - Fin 1) ur) ur) u z
      in if \<not> allow_nan_stats d then check_numerics2 u ''u in _sample_3d'' else Inr u)"

definition body_fn ::
  "vmf \<Rightarrow> fl \<Rightarrow> fl list \<Rightarrow> fl list \<Rightarrow> fl list \<Rightarrow> fl list list \<Rightarrow> fl list list \<Rightarrow>
   fl list list \<Rightarrow> bool list list \<Rightarrow> error + (fl list list \<times> bool list list)" where
  \<comment> \<open>\<open>dim_f\<close> (the source's \<open>dim\<close>), \<open>b\<close>, \<open>x\<close>, \<open>c\<close> are the variables the closure captures; \<open>z\<close> is the Beta draw and
      \<open>uniform\<close> the uniform draw of this run\<close>
  "body_fn d dim_f b x c z uniform w should_continue =
     (let candidate =
            map (\<lambda>zr. map2 (\<lambda>b z. (Fin 1 - (Fin 1 + b) * z) / (Fin 1 - (Fin 1 - b) * z)) b zr) z;
          w = map2 (\<lambda>(sc, cand) w. tf_where sc cand w) (zip should_continue candidate) w
      in case check_numerics2 w ''w'' of
           Inl e \<Rightarrow> Inl e
         | Inr w \<Rightarrow>
             let accept_test =
                   map2 (\<lambda>wr ur. map2 (\<lambda>(conc, x, c) (w, u).
                                          conc * w + dim_f * tf_log1p (- (x * w)) - c < tf_log u)
                                    (zip (concentration d) (zip x c)) (zip wr ur))
                     w uniform;
                 should_continue = map2 (map2 (\<and>)) should_continue accept_test
             in Inr (w, should_continue))"

definition cond_fn :: "bool list list \<Rightarrow> bool" where
  \<comment> \<open>\<open>tf.reduce_any(should_continue)\<close>\<close>
  "cond_fn should_continue = list_ex (list_ex (\<lambda>s. s)) should_continue"

text \<open>
  \<open>tf.while_loop(cond_fn, body_fn, (w, should_continue))\<close> has no bound on the number of
  runs of its body: not returning is the value \<open>None\<close>.
\<close>

partial_function (option) while_loop ::
  "vmf \<Rightarrow> fl \<Rightarrow> fl list \<Rightarrow> fl list \<Rightarrow> fl list \<Rightarrow> draws \<Rightarrow> nat \<Rightarrow> fl list list \<Rightarrow> bool list list \<Rightarrow>
   (error + fl list list) option" where
  "while_loop d dim_f b x c r i w should_continue =
     (if \<not> cond_fn should_continue then Some (Inr w)
      else
        (case body_fn d dim_f b x c (beta_draw r i) (uniform_draw r i) w should_continue of
           Inl e \<Rightarrow> Some (Inl e)
         | Inr (w', should_continue') \<Rightarrow> while_loop d dim_f b x c r (Suc i) w' should_continue'))"

definition sample_dim0 :: "vmf \<Rightarrow> nat \<Rightarrow> draws \<Rightarrow> (error + fl list list) option" where
  \<comment> \<open>the first coordinate \<open>samples_dim0\<close> of \<open>_sample_n\<close>, before \<open>[..., tf.newaxis]\<close>;
      \<open>event_dim == 3\<close> holds for a statically known dimension only\<close>
  "sample_dim0 d n r =
     (if event_dim d = Some 3 then Some (sample_3d d (uniform_3d r))
      else
        let dim_f = Fin (real (the_event_dim d) - 1);
            b = map (\<lambda>conc. dim_f / (Fin 2 * conc + tf_sqrt (Fin 4 * (conc * conc) + dim_f * dim_f)))
                  (concentration d);
            x = map (\<lambda>b. (Fin 1 - b) / (Fin 1 + b)) b;
            c = map2 (\<lambda>conc x. conc * x + dim_f * tf_log1p (- (x * x))) (concentration d) x;
            w = replicate n (map (\<lambda>_. Fin 0) (concentration d));
            should_continue = replicate n (map (\<lambda>_. True) (concentration d))
        in while_loop d dim_f b x c r 0 w should_continue)"

definition assemble :: "fl \<Rightarrow> fl list \<Rightarrow> fl list" where
  \<comment> \<open>one row of \<open>tf.concat([samples_dim0, tf.sqrt(tf.maximum(1 - samples_dim0**2, 0.)) *
      unit_otherdims], axis=-1)\<close>, with \<open>unit_otherdims = tf.nn.l2_normalize(normal)\<close>\<close>
  "assemble u normal =
     u # map (\<lambda>other. tf_sqrt (tf_maximum (Fin 1 - u * u) (Fin 0)) * other) (l2_normalize normal)"

definition sample_n :: "vmf \<Rightarrow> nat \<Rightarrow> draws \<Rightarrow> (error + fl list list list) option" where
  "sample_n d n r =
     (case sample_dim0 d n r of
        None \<Rightarrow> None
      | Some (Inl e) \<Rightarrow> Some (Inl e)
      | Some (Inr samples_dim0) \<Rightarrow>
          Some
            (if \<not> allow_nan_stats d \<and>
                \<not> list_all (list_all (\<lambda>u. u \<le> Fin (101 / 100))) samples_dim0
             then Inl (InvalidArgumentError ''assert_less_equal'')
             else if \<not> allow_nan_stats d \<and>
                \<not> list_all (list_all (\<lambda>u. Fin (- 101 / 100) \<le> u)) samples_dim0
             then Inl (InvalidArgumentError ''assert_greater_equal'')
             else
               let samples =
                     map2 (map2 (\<lambda>u normal. l2_normalize (assemble u normal)))
                       samples_dim0 (normal_draw r)
               in if \<not> allow_nan_stats d \<and>
                     \<not> list_all (list_all (list_all is_finite)) samples
                  then Inl (InvalidArgumentError ''samples'')
                  else if \<not> allow_nan_stats d \<and>
                     \<not> list_all (list_all (\<lambda>s. assert_near (Fin 0) (\<bar>Fin 1 - norm_fl s\<bar>)
                                                  (10 * dtype_eps) (1 / 10 ^ 4))) samples
                  then Inl (InvalidArgumentError ''assert_near'')
                  else if \<not> allow_nan_stats d \<and>
                     \<not> list_all (\<lambda>(rb, m). norm_fl (map2 (\<lambda>a q. a - q) rb m) < Fin (1 / 10 ^ 5))
                          (zip (hd (rotate_vmf d [map (\<lambda>_. basis_vector (the_event_dim d))
                                                (mean_direction d)]))
                             (mean_direction d))
                  then Inl (InvalidArgumentError ''assert_less'')
                  else Inr (rotate_vmf d samples)))"

section \<open>Reference values\<close>

text \<open>
  The modified Bessel function of the first kind of order \<open>1/2\<close> in closed form,
  \<open>I\<^sub>1\<^sub>/\<^sub>2(x) = sqrt (2 / (\<pi> x)) * sinh x\<close>: the reference value that the
  scenario of the specification names.
\<close>

definition bessel_i_half :: "real \<Rightarrow> real" where
  "bessel_i_half x = sqrt (2 / (pi * x)) * sinh x"

text \<open>
  The modified Bessel function of the first kind of order \<open>3/2\<close> in closed form,
  \<open>I\<^sub>3\<^sub>/\<^sub>2(x) = sqrt (2 / (\<pi> x)) * (cosh x - sinh x / x)\<close>. The orders 0 and 1 are the
  power series \<open>bessel_i0\<close> and \<open>bessel_i1\<close> above.
\<close>

definition bessel_i_three_halves :: "real \<Rightarrow> real" where
  "bessel_i_three_halves x = sqrt (2 / (pi * x)) * (cosh x - sinh x / x)"

section \<open>Auxiliary notions of the proofs\<close>

text \<open>
  One position of the tensor \<open>u\<close> of \<open>_sample_3d\<close>, as a function of the concentration \<open>c\<close>
  of its batch element and of its uniform draw \<open>z\<close>. Lemma \<open>sample_3d_lanes\<close> below
  proves that \<open>sample_3d\<close> computes it at every position.
\<close>

definition lane_3d :: "fl \<Rightarrow> fl \<Rightarrow> fl" where
  "lane_3d c z =
     (let safe_c = (if Fin 0 < c then c else Fin 1);
          safe_z = (if Fin 0 < z then z else Fin 1);
          safe_u = Fin 1 + reduce_logsumexp2 (tf_log safe_z)
                             (tf_log1p (- safe_z) - Fin 2 * safe_c) / safe_c
      in if z = Fin 0 then - Fin 1 else if Fin 0 < c then safe_u else Fin 2 * z - Fin 1)"

section \<open>Properties of the Bessel evaluator\<close>

lemma tf_where_map:
  "tf_where (map p z) (map f z) (map g z) = map (\<lambda>x. if p x then f x else g x) z"
  by (induction z) (simp_all add: tf_where_def)

lemma tf_where_map_id:
  "tf_where (map p z) z (map g z) = map (\<lambda>x. if p x then x else g x) z"
  by (induction z) (simp_all add: tf_where_def)

lemma map2_map_same:
  "map2 f (map g z) (map h z) = map (\<lambda>x. f (g x) (h x)) z"
  by (induction z) simp_all

lemma map2_map_same_right:
  "map2 f (map g z) z = map (\<lambda>x. f (g x) x) z"
  by (induction z) simp_all

lemma rsqrt_factor_list:
  "tf_where (map (\<lambda>x. Fin 0 < x) z)
     (map tf_rsqrt (tf_where (map (\<lambda>x. Fin 0 < x) z) z (ones_like z)))
     (ones_like (tf_where (map (\<lambda>x. Fin 0 < x) z) z (ones_like z)))
   = map (\<lambda>x. if Fin 0 < x then tf_rsqrt x else Fin 1) z"
  by (induction z) (simp_all add: tf_where_def ones_like_def)

lemma bessel_ive_0: "bessel_ive 0 z = wrap 0 (map tf_bessel_i0e z)"
  by (simp add: bessel_ive.simps [of 0 z])

lemma bessel_ive_1: "bessel_ive 1 z = wrap 1 (map tf_bessel_i1e z)"
  by (simp add: bessel_ive.simps [of 1 z])

lemma bessel_ive_half:
  "bessel_ive (1 / 2) z =
     wrap (1 / 2) (map (\<lambda>x. Fin (sqrt (2 / pi)) * sinhe x *
                          (if Fin 0 < x then tf_rsqrt x else Fin 1)) z)"
  by (simp add: bessel_ive.simps [of "1 / 2" z] rsqrt_factor_list map2_map_same)

lemma bessel_ive_neg_half:
  "bessel_ive (- (1 / 2)) z =
     wrap (- (1 / 2)) (map (\<lambda>x. Fin (sqrt (2 / pi)) * coshe x *
                          (if Fin 0 < x then tf_rsqrt x else Fin 1)) z)"
  by (subst bessel_ive.simps) (simp add: rsqrt_factor_list map2_map_same)

lemma bessel_ive_three_halves:
  "bessel_ive (3 / 2) z =
     (case bessel_ive (- (1 / 2)) z of Inl e \<Rightarrow> Inl e
      | Inr a \<Rightarrow> (case bessel_ive (1 / 2) z of Inl e \<Rightarrow> Inl e
         | Inr b \<Rightarrow> wrap (3 / 2) (map2 (\<lambda>a q. a - q) a (map2 (\<lambda>b z. Fin 1 * b / z) b z))))"
  by (subst bessel_ive.simps) (simp split: sum.split)


lemma sinhe_Fin: "sinhe (Fin a) = Fin ((exp (a - \<bar>a\<bar>) - exp (- a - \<bar>a\<bar>)) / 2)"
  by (simp add: sinhe_def minus_fl_def)

lemma coshe_Fin: "coshe (Fin a) = Fin ((exp (a - \<bar>a\<bar>) + exp (- a - \<bar>a\<bar>)) / 2)"
  by (simp add: coshe_def minus_fl_def)

lemma is_finite_iff: "is_finite x \<longleftrightarrow> (\<exists>a. x = Fin a)"
  by (cases x) simp_all

lemma finite_half_entry:
  "is_finite x \<Longrightarrow>
     is_finite (Fin (sqrt (2 / pi)) * sinhe x * (if Fin 0 < x then tf_rsqrt x else Fin 1))"
  by (cases x) (simp_all add: sinhe_Fin)

lemma finite_neg_half_entry:
  "is_finite x \<Longrightarrow>
     is_finite (Fin (sqrt (2 / pi)) * coshe x * (if Fin 0 < x then tf_rsqrt x else Fin 1))"
  by (cases x) (simp_all add: coshe_Fin)

lemma finite_i0e: "is_finite x \<Longrightarrow> is_finite (tf_bessel_i0e x)"
  by (cases x) simp_all

lemma finite_i1e: "is_finite x \<Longrightarrow> is_finite (tf_bessel_i1e x)"
  by (cases x) simp_all

lemma wrap_finite: "list_all is_finite r \<Longrightarrow> wrap v r = Inr r"
  by (simp add: wrap_def)

text \<open>
  Claim C5 says that entries \<open>z \<le> 0\<close> are replaced by 1 before the evaluation, so that the
  evaluator returns there what it returns for \<open>z = 1\<close>. The source uses \<open>safe_z\<close> only under
  the reciprocal square root of the orders \<open>1/2\<close> and \<open>-1/2\<close>; \<open>sinhe\<close>, \<open>coshe\<close>,
  \<open>bessel_i0e\<close> and \<open>bessel_i1e\<close> receive \<open>z\<close> itself. At order \<open>1/2\<close> the entry 0 gives 0,
  which is not the value at 1.
\<close>

theorem bessel_ive_safe_z_counterexample:
  "bessel_ive (1 / 2) [Fin 0] = Inr [Fin 0] \<and> bessel_ive (1 / 2) [Fin 1] \<noteq> Inr [Fin 0]"
  by (simp add: bessel_ive_half wrap_def sinhe_Fin)

text \<open>
  Claim C5, amended: for the orders \<open>0\<close>, \<open>1/2\<close>, \<open>1\<close>, \<open>-1/2\<close> and every batch \<open>z\<close> of finite
  entries the evaluator returns, and at an entry that is not positive only the factor
  \<open>rsqrt z\<close> of the orders \<open>1/2\<close> and \<open>-1/2\<close> is replaced by 1: the result there is
  \<open>bessel_i0e z\<close>, \<open>bessel_i1e z\<close>, \<open>sqrt (2/\<pi>) * sinhe z\<close> or \<open>sqrt (2/\<pi>) * coshe z\<close>,
  evaluated at the entry itself.
\<close>

theorem bessel_ive_nonpositive_entries:
  assumes "list_all is_finite z" and "v = 0 \<or> v = 1 / 2 \<or> v = 1 \<or> v = - 1 / 2"
  shows "\<exists>r. bessel_ive v z = Inr r \<and> length r = length z \<and>
           (\<forall>i<length z. \<not> Fin 0 < z ! i \<longrightarrow>
              r ! i = (if v = 0 then tf_bessel_i0e (z ! i)
                       else if v = 1 then tf_bessel_i1e (z ! i)
                       else if v = 1 / 2 then Fin (sqrt (2 / pi)) * sinhe (z ! i) * Fin 1
                       else Fin (sqrt (2 / pi)) * coshe (z ! i) * Fin 1))"
proof -
  from assms(2) consider "v = 0" | "v = 1 / 2" | "v = 1" | "v = - 1 / 2" by blast
  then show ?thesis
  proof cases
    case 1
    have "list_all is_finite (map tf_bessel_i0e z)"
      using assms(1) by (simp add: list_all_iff finite_i0e)
    then show ?thesis unfolding 1 by (simp add: bessel_ive_0 wrap_finite)
  next
    case 2
    have "list_all is_finite (map (\<lambda>x. Fin (sqrt (2 / pi)) * sinhe x *
                          (if Fin 0 < x then tf_rsqrt x else Fin 1)) z)"
      using assms(1) by (simp add: list_all_iff finite_half_entry)
    then show ?thesis unfolding 2 by (simp add: bessel_ive_half wrap_finite)
  next
    case 3
    have "list_all is_finite (map tf_bessel_i1e z)"
      using assms(1) by (simp add: list_all_iff finite_i1e)
    then show ?thesis unfolding 3 by (simp add: bessel_ive_1 wrap_finite)
  next
    case 4
    have "list_all is_finite (map (\<lambda>x. Fin (sqrt (2 / pi)) * coshe x *
                          (if Fin 0 < x then tf_rsqrt x else Fin 1)) z)"
      using assms(1) by (simp add: list_all_iff finite_neg_half_entry)
    then show ?thesis unfolding 4 by (simp add: bessel_ive_neg_half wrap_finite)
  qed
qed

text \<open>Witness for C5: the batch \<open>[0, 2]\<close> at order \<open>1/2\<close>.\<close>

theorem bessel_ive_nonpositive_entries_witness:
  "list_all is_finite [Fin 0, Fin 2] \<and>
   (\<exists>r. bessel_ive (1 / 2) [Fin 0, Fin 2] = Inr r \<and> r ! 0 = Fin 0)"
  using bessel_ive_nonpositive_entries [of "[Fin 0, Fin 2]" "1 / 2"]
  by (auto simp: sinhe_Fin)

section \<open>Properties of the construction\<close>

text \<open>
  Claim C4 says that an event dimension \<open>D < 2\<close> or \<open>D > 5\<close> is refused at construction
  whatever \<open>validate_args\<close> is. The source tests \<open>D > 1\<close> only in an assertion that exists
  under \<open>validate_args\<close>: a statically known \<open>D = 1\<close> constructs when \<open>validate_args\<close> is
  false.
\<close>

theorem init_scalar_event_counterexample:
  "init [[Fin 1]] [Fin 1] True False True =
     Inr \<lparr>mean_direction = [[Fin 1]], concentration = [Fin 1], event_dim = Some 1,
          validate_args = False, allow_nan_stats = True\<rparr>"
  by (simp add: init_def last_dim_def)

lemma filter_failed_nonempty:
  "(False, msg) \<in> set as \<Longrightarrow>
     \<exists>m rest. filter (\<lambda>(ok, msg). \<not> ok) as = (False, m) # rest"
proof -
  assume "(False, msg) \<in> set as"
  then have "(False, msg) \<in> set (filter (\<lambda>(ok, msg). \<not> ok) as)" by simp
  then obtain y ys where eq: "filter (\<lambda>(ok, msg). \<not> ok) as = y # ys"
    by (cases "filter (\<lambda>(ok, msg). \<not> ok) as") auto
  then have "y \<in> set (filter (\<lambda>(ok, msg). \<not> ok) as)" by simp
  then have "\<not> fst y" by auto
  then show ?thesis using eq by (cases y) auto
qed

text \<open>
  Claim C4, amended: a statically known \<open>D > 5\<close> is refused with \<open>ValueError\<close> whatever
  \<open>validate_args\<close> is; with \<open>validate_args\<close> every \<open>D < 2\<close> and every \<open>D > 5\<close> is refused;
  without \<open>validate_args\<close> every construction succeeds but that of a statically known
  \<open>D > 5\<close>.
\<close>

theorem init_event_dim_errors:
  "(static_shape \<and> 5 < last_dim md \<longrightarrow>
      init md conc static_shape validate allow_nan =
        Inl (ValueError ''vMF ndims > 5 is not currently supported'')) \<and>
   (validate \<and> (last_dim md < 2 \<or> 5 < last_dim md) \<longrightarrow>
      (\<exists>e. init md conc static_shape validate allow_nan = Inl e)) \<and>
   (\<not> validate \<and> \<not> (static_shape \<and> 5 < last_dim md) \<longrightarrow>
      init md conc static_shape validate allow_nan =
        Inr \<lparr>mean_direction = md, concentration = conc,
             event_dim = (if static_shape then Some (last_dim md) else None),
             validate_args = False, allow_nan_stats = allow_nan\<rparr>)"
proof (intro conjI impI)
  assume "static_shape \<and> 5 < last_dim md"
  then show "init md conc static_shape validate allow_nan =
        Inl (ValueError ''vMF ndims > 5 is not currently supported'')"
    by (simp add: init_def Let_def)
next
  assume a: "validate \<and> (last_dim md < 2 \<or> 5 < last_dim md)"
  show "\<exists>e. init md conc static_shape validate allow_nan = Inl e"
  proof (cases "static_shape \<and> 5 < last_dim md")
    case True
    then show ?thesis by (simp add: init_def Let_def)
  next
    case False
    define as where "as =
      (if \<not> static_shape \<and> validate then
         [(list_all (\<lambda>c. Fin 0 \<le> c) conc, ''`concentration` must be non-negative''),
          (1 < last_dim md, ''`mean_direction` may not have scalar event shape''),
          (list_all (\<lambda>m. assert_near (Fin 1) (norm_fl m) (10 * dtype_eps) (10 * dtype_eps)) md,
           ''`mean_direction` must be unit-length'')] @
         [(last_dim md \<le> 5, ''vMF ndims > 5 is not currently supported'')]
       else
         [(list_all (\<lambda>c. Fin 0 \<le> c) conc, ''`concentration` must be non-negative''),
          (1 < last_dim md, ''`mean_direction` may not have scalar event shape''),
          (list_all (\<lambda>m. assert_near (Fin 1) (norm_fl m) (10 * dtype_eps) (10 * dtype_eps)) md,
           ''`mean_direction` must be unit-length'')])"
    have eq: "init md conc static_shape validate allow_nan =
      (case filter (\<lambda>(ok, msg). \<not> ok) as of
         (_, msg) # _ \<Rightarrow> Inl (InvalidArgumentError msg)
       | [] \<Rightarrow> Inr \<lparr>mean_direction = md, concentration = conc,
                        event_dim = (if static_shape then Some (last_dim md) else None),
                        validate_args = validate, allow_nan_stats = allow_nan\<rparr>)"
      using False a unfolding init_def Let_def as_def by (simp cong: list.case_cong)
    have "\<exists>msg. (False, msg) \<in> set as"
      using a False unfolding as_def by auto
    then obtain msg where "(False, msg) \<in> set as" by blast
    from filter_failed_nonempty [OF this]
    obtain m rest where "filter (\<lambda>(ok, msg). \<not> ok) as = (False, m) # rest" by blast
    then show ?thesis unfolding eq by simp
  qed
next
  assume "\<not> validate \<and> \<not> (static_shape \<and> 5 < last_dim md)"
  then show "init md conc static_shape validate allow_nan =
        Inr \<lparr>mean_direction = md, concentration = conc,
             event_dim = (if static_shape then Some (last_dim md) else None),
             validate_args = False, allow_nan_stats = allow_nan\<rparr>"
    by (auto simp: init_def Let_def)
qed

text \<open>Witness for C4: one construction for each of the three parts.\<close>

theorem init_event_dim_errors_witness:
  "init (replicate 1 (replicate 6 (Fin 0))) [Fin 1] True False True =
     Inl (ValueError ''vMF ndims > 5 is not currently supported'') \<and>
   (\<exists>e. init [[Fin 1]] [Fin 1] True True True = Inl e) \<and>
   init [[Fin 1]] [Fin 1] False False True =
     Inr \<lparr>mean_direction = [[Fin 1]], concentration = [Fin 1], event_dim = None,
          validate_args = False, allow_nan_stats = True\<rparr>"
  using init_event_dim_errors [of True "replicate 1 (replicate 6 (Fin 0))" "[Fin 1]" False True]
    init_event_dim_errors [of True "[[Fin 1]]" "[Fin 1]" True True]
    init_event_dim_errors [of False "[[Fin 1]]" "[Fin 1]" False True]
  by (simp add: last_dim_def)

section \<open>Properties of the density\<close>

lemma sinh_scaled: "sinh x * exp (- x) = (1 - exp (- 2 * x)) / (2::real)"
proof -
  have "exp x * exp (- x) = (1::real)" by (simp add: exp_minus)
  moreover have "exp (- x) * exp (- x) = exp (- 2 * x :: real)"
    by (simp add: exp_add [symmetric])
  ultimately show ?thesis
    by (simp add: sinh_field_def algebra_simps diff_divide_distrib)
qed

lemma i_half_scaled:
  "bessel_i_half 1 * exp (- 1) = sqrt (2 / pi) * (1 - exp (- 2)) / 2"
  using sinh_scaled [of 1] by (simp add: bessel_i_half_def)

lemma exp2_ge_4: "4 \<le> exp (2::real)"
proof -
  have "2 \<le> exp (1::real)" using exp_ge_add_one_self [of "1::real"] by simp
  then have "2 * 2 \<le> exp (1::real) * exp 1" by (intro mult_mono) simp_all
  then show ?thesis by (simp add: exp_add [symmetric])
qed

lemma q_lower: "1 / 4 \<le> sqrt (2 / pi) * (1 - exp (- 2)) / (2::real)"
proof -
  have "exp (- 2 :: real) \<le> 1 / 4"
    using exp2_ge_4 by (simp add: exp_minus inverse_eq_divide field_simps)
  then have a: "3 / 8 \<le> (1 - exp (- 2 :: real)) / 2" by simp
  have "pi * (1 / 2) \<le> 2" using pi_less_4 by simp
  then have "1 / 2 \<le> 2 / pi" using pi_gt_zero by (simp add: pos_le_divide_eq mult.commute)
  moreover have "(7 / 10)\<^sup>2 \<le> (1 / 2 :: real)" by (simp add: power2_eq_square)
  ultimately have "(7 / 10)\<^sup>2 \<le> 2 / pi" by (rule order_trans [rotated])
  then have "sqrt ((7 / 10)\<^sup>2) \<le> sqrt (2 / pi)"
    by (intro real_sqrt_le_mono)
  then have b: "7 / 10 \<le> sqrt (2 / pi)" by simp
  have "7 / 10 * (3 / 8) \<le> sqrt (2 / pi) * ((1 - exp (- 2 :: real)) / 2)"
    using a b by (intro mult_mono) simp_all
  then show ?thesis by simp
qed

lemma ln_q_lower: "- 2 \<le> ln (sqrt (2 / pi) * (1 - exp (- 2)) / (2::real))"
proof -
  have "ln (1 / 4 :: real) \<le> ln (sqrt (2 / pi) * (1 - exp (- 2)) / 2)"
    using q_lower by (intro ln_mono) simp_all
  moreover have "ln (4::real) \<le> 2"
    using exp2_ge_4 ln_mono [of 4 "exp 2"] by simp
  moreover have "ln (1 / 4 :: real) = - ln 4" by (simp add: ln_div)
  ultimately show ?thesis by simp
qed

lemma ln_2pi_lower: "1 \<le> ln (2 * pi)"
proof -
  have "exp (1::real) \<le> 2 * pi" using exp_le pi_ge_two by linarith
  then show ?thesis by (simp add: ln_ge_iff)
qed

lemma scenario_value_negative:
  "1 / 2 * ln 1 - 3 / 2 * ln (2 * pi) - ln (bessel_i_half 1 * exp (- 1)) - 1 < (0::real)"
  using ln_q_lower ln_2pi_lower unfolding i_half_scaled by simp


lemma norm_fl_e1: "norm_fl [Fin 1, Fin 0, Fin 0] = Fin 1"
  by (simp add: norm_fl_def reduce_sum_def)

lemma scenario_valid_sample:
  "maybe_assert_valid_sample
     \<lparr>mean_direction = [[Fin 0, Fin 1, Fin 0]], concentration = [Fin 1], event_dim = Some 3,
      validate_args = va, allow_nan_stats = an\<rparr> [[Fin 1, Fin 0, Fin 0]] =
   Inr [[Fin 1, Fin 0, Fin 0]]"
  by (simp add: maybe_assert_valid_sample_def norm_fl_e1 assert_near_def minus_fl_def
      less_eq_fl_def dtype_eps_def last_dim_def)

lemma scenario_unnormalized:
  "log_unnormalized_prob
     \<lparr>mean_direction = [[Fin 0, Fin 1, Fin 0]], concentration = [Fin 1], event_dim = Some 3,
      validate_args = va, allow_nan_stats = an\<rparr> [[Fin 1, Fin 0, Fin 0]] = Inr [Fin 0]"
  unfolding log_unnormalized_prob_def scenario_valid_sample
  by (simp add: bcast_mean_dir_def zeros_like_def reduce_sum_def tf_binary2_def tf_binary_def
      broadcast_def)

lemma scenario_normalization:
  "log_normalization
     \<lparr>mean_direction = [[Fin 0, Fin 1, Fin 0]], concentration = [Fin 1], event_dim = Some 3,
      validate_args = va, allow_nan_stats = an\<rparr> =
   Inr [Fin (- (1 / 2 * ln 1 - 3 / 2 * ln (2 * pi) - ln (bessel_i_half 1 * exp (- 1)) - 1))]"
  unfolding log_normalization_def i_half_scaled
  by (simp add: safe_conc_def tf_where_def ones_like_def bessel_ive_half wrap_def sinhe_Fin
      minus_fl_def tf_lgamma_half_def)

lemma scenario_log_prob:
  "log_prob
     \<lparr>mean_direction = [[Fin 0, Fin 1, Fin 0]], concentration = [Fin 1], event_dim = Some 3,
      validate_args = va, allow_nan_stats = an\<rparr> [[Fin 1, Fin 0, Fin 0]] =
   Inr [Fin (1 / 2 * ln 1 - 3 / 2 * ln (2 * pi) - ln (bessel_i_half 1 * exp (- 1)) - 1)]"
  by (simp add: log_prob_def scenario_valid_sample scenario_unnormalized scenario_normalization
      minus_fl_def tf_binary_def broadcast_def)

lemma log_prob_shape_mismatch:
  "log_prob
     \<lparr>mean_direction = [[Fin 0, Fin 1, Fin 0]], concentration = [Fin 1], event_dim = Some 3,
      validate_args = False, allow_nan_stats = an\<rparr> [[Fin 1, Fin 0]] = Inl shape_error"
  by (simp add: log_prob_def log_unnormalized_prob_def maybe_assert_valid_sample_def
      bcast_mean_dir_def zeros_like_def tf_binary2_def tf_binary_def broadcast_def)

text \<open>
  Claim C1 says that in the scenario \<open>D = 3\<close>, \<open>\<mu> = [0, 1, 0]\<close>, \<open>\<kappa> = 1\<close> the value
  \<open>logProb([1, 0, 0])\<close> is the negation of
  \<open>0.5 * log 1 - 1.5 * log (2\<pi>) - log (I\<^sub>1\<^sub>/\<^sub>2(1) * exp (-1)) - 1\<close>. The source returns
  the bracket itself, a negative number, so the value is not its negation.
\<close>

theorem log_prob_scenario_counterexample:
  "log_prob
     \<lparr>mean_direction = [[Fin 0, Fin 1, Fin 0]], concentration = [Fin 1], event_dim = Some 3,
      validate_args = False, allow_nan_stats = True\<rparr> [[Fin 1, Fin 0, Fin 0]] \<noteq>
   Inr [Fin (- (1 / 2 * ln 1 - 3 / 2 * ln (2 * pi) - ln (bessel_i_half 1 * exp (- 1)) - 1))]"
  unfolding scenario_log_prob using scenario_value_negative by simp

text \<open>
  Claim C1, amended: in the scenario the unnormalized term is 0 and \<open>logProb([1, 0, 0])\<close>
  equals \<open>0.5 * log 1 - 1.5 * log (2\<pi>) - log (I\<^sub>1\<^sub>/\<^sub>2(1) * exp (-1)) - 1\<close> (which is
  \<open>- logNormalization\<close>), exactly in the arithmetic of the embedding, whatever the two
  flags are.
\<close>

theorem log_prob_scenario:
  "log_unnormalized_prob
     \<lparr>mean_direction = [[Fin 0, Fin 1, Fin 0]], concentration = [Fin 1], event_dim = Some 3,
      validate_args = va, allow_nan_stats = an\<rparr> [[Fin 1, Fin 0, Fin 0]] = Inr [Fin 0] \<and>
   log_prob
     \<lparr>mean_direction = [[Fin 0, Fin 1, Fin 0]], concentration = [Fin 1], event_dim = Some 3,
      validate_args = va, allow_nan_stats = an\<rparr> [[Fin 1, Fin 0, Fin 0]] =
   Inr [Fin (1 / 2 * ln 1 - 3 / 2 * ln (2 * pi) - ln (bessel_i_half 1 * exp (- 1)) - 1)]"
  using scenario_unnormalized scenario_log_prob by simp

text \<open>Witness for C1: the scenario with both checks enabled.\<close>

theorem log_prob_scenario_witness:
  "log_prob
     \<lparr>mean_direction = [[Fin 0, Fin 1, Fin 0]], concentration = [Fin 1], event_dim = Some 3,
      validate_args = True, allow_nan_stats = False\<rparr> [[Fin 1, Fin 0, Fin 0]] =
   Inr [Fin (- 3 / 2 * ln (2 * pi) - ln (sqrt (2 / pi) * (1 - exp (- 2)) / 2) - 1)]"
  using log_prob_scenario [of True False] by (simp add: i_half_scaled)

section \<open>Properties of the mean\<close>

lemma safe_conc_eq:
  "safe_conc d = map (\<lambda>c. if Fin 0 < c then c else Fin 1) (concentration d)"
  by (simp add: safe_conc_def ones_like_def tf_where_map_id)

lemma safe_conc_positive:
  assumes "list_all is_finite (concentration d)"
  shows "list_all (\<lambda>x. \<exists>a. x = Fin a \<and> 0 < a) (safe_conc d)"
proof -
  have "\<exists>a. (if Fin 0 < c then c else Fin 1) = Fin a \<and> 0 < a" if "is_finite c" for c
    using that by (cases c) auto
  then have "list_all (\<lambda>x. \<exists>a. x = Fin a \<and> 0 < a)
               (map (\<lambda>c. if Fin 0 < c then c else Fin 1) cs)"
    if "list_all is_finite cs" for cs
    using that by (induction cs) simp_all
  then show ?thesis using assms by (simp add: safe_conc_eq)
qed

lemma bessel_ive_three_halves_eq:
  "bessel_ive (3 / 2) z =
     (case wrap (- (1 / 2)) (map (\<lambda>x. Fin (sqrt (2 / pi)) * coshe x *
                          (if Fin 0 < x then tf_rsqrt x else Fin 1)) z) of Inl e \<Rightarrow> Inl e
      | Inr a \<Rightarrow> (case wrap (1 / 2) (map (\<lambda>x. Fin (sqrt (2 / pi)) * sinhe x *
                          (if Fin 0 < x then tf_rsqrt x else Fin 1)) z) of Inl e \<Rightarrow> Inl e
         | Inr b \<Rightarrow> wrap (3 / 2) (map2 (\<lambda>a q. a - q) a (map2 (\<lambda>b z. Fin 1 * b / z) b z))))"
  by (simp add: bessel_ive_three_halves bessel_ive_half bessel_ive_neg_half split: sum.split)

lemma bessel_ive_three_halves_positive:
  assumes "list_all (\<lambda>x. \<exists>a. x = Fin a \<and> 0 < a) z"
  shows "bessel_ive (3 / 2) z =
     Inr (map (\<lambda>x. Fin (sqrt (2 / pi)) * coshe x * tf_rsqrt x -
                    Fin 1 * (Fin (sqrt (2 / pi)) * sinhe x * tf_rsqrt x) / x) z)"
proof -
  let ?A = "\<lambda>x. Fin (sqrt (2 / pi)) * coshe x * (if Fin 0 < x then tf_rsqrt x else Fin 1)"
  let ?B = "\<lambda>x. Fin (sqrt (2 / pi)) * sinhe x * (if Fin 0 < x then tf_rsqrt x else Fin 1)"
  have fin: "list_all is_finite z" using assms by (auto simp: list_all_iff)
  have a: "wrap (- (1 / 2)) (map ?A z) = Inr (map ?A z)"
    using fin by (intro wrap_finite) (simp add: list_all_iff finite_neg_half_entry)
  have b: "wrap (1 / 2) (map ?B z) = Inr (map ?B z)"
    using fin by (intro wrap_finite) (simp add: list_all_iff finite_half_entry)
  have c: "map2 (\<lambda>a q. a - q) (map ?A z) (map2 (\<lambda>b z. Fin 1 * b / z) (map ?B z) z) =
           map (\<lambda>x. ?A x - Fin 1 * ?B x / x) z"
    by (simp add: map2_map_same_right map2_map_same)
  have d: "map (\<lambda>x. ?A x - Fin 1 * ?B x / x) z =
        map (\<lambda>x. Fin (sqrt (2 / pi)) * coshe x * tf_rsqrt x -
                    Fin 1 * (Fin (sqrt (2 / pi)) * sinhe x * tf_rsqrt x) / x) z"
    using assms by (intro map_cong) (auto simp: list_all_iff)
  have e: "list_all is_finite (map (\<lambda>x. Fin (sqrt (2 / pi)) * coshe x * tf_rsqrt x -
                    Fin 1 * (Fin (sqrt (2 / pi)) * sinhe x * tf_rsqrt x) / x) z)"
    using assms by (auto simp: list_all_iff coshe_Fin sinhe_Fin minus_fl_def)
  show ?thesis
    unfolding bessel_ive_three_halves_eq a b by (simp add: c d wrap_finite [OF e])
qed

lemma bessel_ive_half_positive:
  assumes "list_all (\<lambda>x. \<exists>a. x = Fin a \<and> 0 < a) z"
  shows "bessel_ive (1 / 2) z = Inr (map (\<lambda>x. Fin (sqrt (2 / pi)) * sinhe x * tf_rsqrt x) z)"
proof -
  let ?B = "\<lambda>x. Fin (sqrt (2 / pi)) * sinhe x * (if Fin 0 < x then tf_rsqrt x else Fin 1)"
  have fin: "list_all is_finite z" using assms by (auto simp: list_all_iff)
  have b: "wrap (1 / 2) (map ?B z) = Inr (map ?B z)"
    using fin by (intro wrap_finite) (simp add: list_all_iff finite_half_entry)
  have "map ?B z = map (\<lambda>x. Fin (sqrt (2 / pi)) * sinhe x * tf_rsqrt x) z"
    using assms by (intro map_cong) (auto simp: list_all_iff)
  then show ?thesis by (simp add: bessel_ive_half b)
qed

lemma bessel_ive_0_finite:
  "list_all is_finite z \<Longrightarrow> bessel_ive 0 z = Inr (map tf_bessel_i0e z)"
  by (simp add: bessel_ive_0 wrap_finite list_all_iff finite_i0e)

lemma bessel_ive_1_finite:
  "list_all is_finite z \<Longrightarrow> bessel_ive 1 z = Inr (map tf_bessel_i1e z)"
  by (simp add: bessel_ive_1 wrap_finite list_all_iff finite_i1e)



lemma length_safe_conc: "length (safe_conc d) = length (concentration d)"
  by (simp add: safe_conc_eq)









lemma ratio_three_halves_closed:
  assumes "0 < k"
  shows "bessel_i_three_halves k / bessel_i_half k = cosh k / sinh k - 1 / k"
proof -
  have "0 < sqrt (2 / (pi * k))" using assms by simp
  moreover have "0 < sinh k" using assms by simp
  ultimately show ?thesis
    using assms by (simp add: bessel_i_three_halves_def bessel_i_half_def field_simps)
qed





section \<open>The uniform limit of the density\<close>

lemma length_tf_where:
  "length (tf_where c a b) = min (length c) (min (length a) (length b))"
  by (simp add: tf_where_def)

lemma nth_tf_where:
  "i < length c \<Longrightarrow> i < length a \<Longrightarrow> i < length b \<Longrightarrow>
     tf_where c a b ! i = (if c ! i then a ! i else b ! i)"
  by (simp add: tf_where_def)

lemma gamma_half_values:
  "gamma_half 2 = 1" "gamma_half 3 = sqrt pi / 2" "gamma_half 4 = 1"
  "gamma_half 5 = 3 * sqrt pi / 4"
  by (simp_all add: numeral_eq_Suc)

lemma gamma_half_positive: "2 \<le> n \<Longrightarrow> n \<le> 5 \<Longrightarrow> 0 < gamma_half n"
proof -
  assume "2 \<le> n" "n \<le> 5"
  then have "n = 2 \<or> n = 3 \<or> n = 4 \<or> n = 5" by arith
  then show ?thesis by (auto simp: gamma_half_values)
qed

lemma log_surface_area:
  assumes "2 \<le> n" "n \<le> 5"
  shows "ln (2 * pi powr (real n / 2) / gamma_half n) =
         ln 2 + real n / 2 * ln pi - ln (gamma_half n)"
proof -
  have g: "0 < gamma_half n" using assms by (rule gamma_half_positive)
  have p: "0 < pi powr (real n / 2)" by simp
  have "ln (2 * pi powr (real n / 2) / gamma_half n) =
        ln (2 * pi powr (real n / 2)) - ln (gamma_half n)"
    using g p by (simp add: ln_div)
  also have "ln (2 * pi powr (real n / 2)) = ln 2 + ln (pi powr (real n / 2))"
    using p by (simp add: ln_mult)
  also have "ln (pi powr (real n / 2)) = real n / 2 * ln pi"
    by (simp add: ln_powr)
  finally show ?thesis .
qed

lemma bessel_ive_normalizer_returns:
  assumes "2 \<le> n" "n \<le> 5" "list_all is_finite (concentration d)"
  shows "\<exists>ive. bessel_ive (of_nat n / 2 - 1) (safe_conc d) = Inr ive \<and>
           length ive = length (concentration d)"
proof -
  have pos: "list_all (\<lambda>x. \<exists>a. x = Fin a \<and> 0 < a) (safe_conc d)"
    using assms(3) by (rule safe_conc_positive)
  then have fin: "list_all is_finite (safe_conc d)" by (auto simp: list_all_iff)
  from assms(1,2) have "n = 2 \<or> n = 3 \<or> n = 4 \<or> n = 5" by arith
  then show ?thesis
    using pos fin
    by (auto simp: bessel_ive_0_finite bessel_ive_1_finite bessel_ive_three_halves_positive
        bessel_ive_half_positive length_safe_conc)
qed

lemma reduce_sum_finite: "list_all is_finite xs \<Longrightarrow> is_finite (reduce_sum xs)"
proof (induction xs)
  case Nil
  then show ?case by (simp add: reduce_sum_def)
next
  case (Cons x xs)
  then obtain a b where "x = Fin a" "reduce_sum xs = Fin b"
    by (auto simp: is_finite_iff)
  then show ?case by (simp add: reduce_sum_def)
qed

lemma products_finite:
  "list_all is_finite s \<Longrightarrow> list_all is_finite m \<Longrightarrow> list_all is_finite (map2 (*) s m)"
proof (induction s arbitrary: m)
  case Nil
  then show ?case by simp
next
  case (Cons a s)
  then show ?case by (cases m) (auto simp: is_finite_iff)
qed


lemma broadcast_same: "length a = length b \<Longrightarrow> broadcast a b = Some (a, b)"
  by (simp add: broadcast_def)

lemma tf_binary_same: "length a = length b \<Longrightarrow> tf_binary f a b = Inr (map2 f a b)"
  by (simp add: tf_binary_def broadcast_same)

lemma map2_replicate_right: "map2 f m (replicate (length m) z) = map (\<lambda>x. f x z) m"
  by (induction m) simp_all

lemma tf_binary_singleton: "tf_binary f m [z] = Inr (map (\<lambda>x. f x z) m)"
proof (cases "length m = 1")
  case True
  then obtain a where "m = [a]" by (cases m) auto
  then show ?thesis by (simp add: tf_binary_def broadcast_def)
next
  case False
  then show ?thesis by (simp add: tf_binary_def broadcast_def map2_replicate_right)
qed

lemma collect_returned: "collect (map Inr xs) = Inr xs"
  by (induction xs) simp_all

lemma tf_binary2_same:
  assumes "list_all2 (\<lambda>x y. length x = length y) a b"
  shows "tf_binary2 f a b = Inr (map2 (map2 f) a b)"
proof -
  from assms have "map2 (tf_binary f) a b = map Inr (map2 (map2 f) a b)"
    by (induction rule: list_all2_induct) (simp_all add: tf_binary_same)
  moreover have "length a = length b" using assms by (rule list_all2_lengthD)
  ultimately show ?thesis
    unfolding tf_binary2_def by (simp only: broadcast_same option.case prod.case collect_returned)
qed

lemma bcast_mean_dir_rows:
  assumes "length (mean_direction d) = length (concentration d)"
  shows "bcast_mean_dir d = Inr (map (map (\<lambda>x. x + Fin 0)) (mean_direction d))"
proof -
  have "map2 (tf_binary (+)) md (map (\<lambda>z. [z]) (map (\<lambda>_. Fin 0) cs)) =
        map Inr (map (map (\<lambda>x. x + Fin 0)) md)" if "length md = length cs"
    for md :: "fl list list" and cs :: "fl list"
    using that by (induction md cs rule: list_induct2) (simp_all add: tf_binary_singleton)
  from this [OF assms] have "collect (map2 (tf_binary (+)) (mean_direction d)
        (map (\<lambda>z. [z]) (map (\<lambda>_. Fin 0) (concentration d)))) =
      Inr (map (map (\<lambda>x. x + Fin 0)) (mean_direction d))"
    by (simp only: collect_returned)
  moreover have "broadcast (mean_direction d)
        (map (\<lambda>z. [z]) (map (\<lambda>_. Fin 0) (concentration d))) =
      Some (mean_direction d, map (\<lambda>z. [z]) (map (\<lambda>_. Fin 0) (concentration d)))"
    using assms by (intro broadcast_same) simp
  ultimately show ?thesis
    unfolding bcast_mean_dir_def tf_binary2_def zeros_like_def by simp
qed

lemma unnormalized_rows:
  assumes "maybe_assert_valid_sample d x = Inr x"
    and "length x = length (concentration d)"
    and "length (mean_direction d) = length (concentration d)"
    and "list_all (\<lambda>s. length s = n) x"
    and "list_all (\<lambda>m. length m = n) (mean_direction d)"
  shows "\<exists>u. log_unnormalized_prob d x = Inr u \<and> length u = length (concentration d) \<and>
           (\<forall>i<length (concentration d).
              u ! i = concentration d ! i *
                        reduce_sum (map2 (*) (x ! i) (map (\<lambda>y. y + Fin 0) (mean_direction d ! i))))"
proof -
  let ?b = "map (map (\<lambda>x. x + Fin 0)) (mean_direction d)"
  have "list_all2 (\<lambda>x y. length x = length y) x ?b"
    using assms(2-5) by (simp add: list_all2_conv_all_nth list_all_length)
  then have "tf_binary2 (*) x ?b = Inr (map2 (map2 (*)) x ?b)" by (rule tf_binary2_same)
  then show ?thesis
    using assms(1-3)
    by (simp add: log_unnormalized_prob_def bcast_mean_dir_rows tf_binary_same)
qed

lemma normalization_rows:
  assumes "event_dim d = Some n"
    and "bessel_ive (of_nat n / 2 - 1) (safe_conc d) = Inr ive"
    and "length ive = length (concentration d)"
  shows "\<exists>nr. log_normalization d = Inr nr \<and> length nr = length (concentration d) \<and>
           (\<forall>i<length (concentration d). \<not> Fin 0 < concentration d ! i \<longrightarrow>
              nr ! i = (Fin (ln 2 + real n / 2 * ln pi) - tf_lgamma_half n) * Fin 1)"
  using assms
  by (simp add: log_normalization_def Let_def length_tf_where nth_tf_where ones_like_def
      length_safe_conc)

lemma zero_times_inner:
  assumes "list_all is_finite s" "list_all is_finite m"
  shows "Fin 0 * reduce_sum (map2 (*) s (map (\<lambda>y. y + Fin 0) m)) = Fin 0"
proof -
  have "list_all is_finite (map (\<lambda>y. y + Fin 0) m)"
    using assms(2) by (induction m) (auto simp: is_finite_iff)
  then have "is_finite (reduce_sum (map2 (*) s (map (\<lambda>y. y + Fin 0) m)))"
    using assms(1) by (intro reduce_sum_finite products_finite)
  then show ?thesis by (auto simp: is_finite_iff)
qed

lemma wrap_returned: "wrap v a = Inr r \<Longrightarrow> r = a"
  by (simp add: wrap_def split: if_splits)

lemma bessel_ive_length:
  assumes "bessel_ive (of_nat n / 2 - 1) z = Inr r" and "2 \<le> n" and "n \<le> 5"
  shows "length r = length z"
proof -
  from assms(2,3) have "n = 2 \<or> n = 3 \<or> n = 4 \<or> n = 5" by arith
  then show ?thesis
  proof (elim disjE)
    assume "n = 2"
    then show ?thesis using assms(1) by (auto simp: bessel_ive_0 dest: wrap_returned)
  next
    assume "n = 3"
    then show ?thesis using assms(1) by (auto simp: bessel_ive_half dest: wrap_returned)
  next
    assume "n = 4"
    then show ?thesis using assms(1) by (auto simp: bessel_ive_1 dest: wrap_returned)
  next
    assume "n = 5"
    then show ?thesis
      using assms(1)
      by (auto simp: bessel_ive_three_halves_eq split: sum.splits dest!: wrap_returned)
  qed
qed

text \<open>
  Claim C6: for every dimension from 2 to 5 and every batch element with \<open>\<kappa> = 0\<close>, the
  value of \<open>logProb(x)\<close> is \<open>- log (2 \<pi>\<^sup>D\<^sup>/\<^sup>2 / \<Gamma>(D/2))\<close>, the negative logarithm of the
  surface area of the sphere, whatever the vector \<open>x\<close> is. The theorem is about a batch
  \<open>x\<close> of the shape \<open>[k, D]\<close> of the parameters, with finite entries and accepted by the
  validation when it is enabled. Every value that \<open>logProb\<close> returns has this entry at the
  elements with \<open>\<kappa> = 0\<close>: the unnormalized term is \<open>0\<close> there, and the normalization is
  the logarithm of the surface area, which \<open>lgamma\<close> gives; the entry of the Bessel
  evaluator is discarded by the selection, so that nothing the evaluator returns enters
  the value. And \<open>logProb\<close> does return when the concentrations are finite.
\<close>

theorem log_prob_uniform_limit:
  assumes "event_dim d = Some n" and "2 \<le> n" and "n \<le> 5"
    and "length (mean_direction d) = length (concentration d)"
    and "length x = length (concentration d)"
    and "list_all (\<lambda>m. length m = n \<and> list_all is_finite m) (mean_direction d)"
    and "list_all (\<lambda>s. length s = n \<and> list_all is_finite s) x"
    and "maybe_assert_valid_sample d x = Inr x"
  shows "(\<forall>r. log_prob d x = Inr r \<longrightarrow>
            length r = length (concentration d) \<and>
            (\<forall>i<length (concentration d). concentration d ! i = Fin 0 \<longrightarrow>
               r ! i = Fin (- ln (2 * pi powr (real n / 2) / gamma_half n)))) \<and>
         (list_all is_finite (concentration d) \<longrightarrow> (\<exists>r. log_prob d x = Inr r))"
proof -
  have shape: "list_all (\<lambda>s. length s = n) x" "list_all (\<lambda>m. length m = n) (mean_direction d)"
    using assms(6,7) by (simp_all add: list_all_iff)
  obtain u where u: "log_unnormalized_prob d x = Inr u" "length u = length (concentration d)"
      "\<forall>i<length (concentration d).
              u ! i = concentration d ! i *
                        reduce_sum (map2 (*) (x ! i) (map (\<lambda>y. y + Fin 0) (mean_direction d ! i)))"
    using unnormalized_rows [OF assms(8,5,4) shape] by blast
  have at_zero: "length r = length (concentration d) \<and>
      (\<forall>i<length (concentration d). concentration d ! i = Fin 0 \<longrightarrow>
         r ! i = Fin (- ln (2 * pi powr (real n / 2) / gamma_half n)))"
    if r: "log_prob d x = Inr r" for r
  proof -
    from r obtain nr where nr0: "log_normalization d = Inr nr"
      by (auto simp: log_prob_def assms(8) u(1) split: sum.splits)
    then obtain ive where ive0: "bessel_ive (of_nat n / 2 - 1) (safe_conc d) = Inr ive"
      by (auto simp: log_normalization_def assms(1) split: sum.splits)
    have ive: "length ive = length (concentration d)"
      using bessel_ive_length [OF ive0 assms(2,3)] by (simp add: length_safe_conc)
    from normalization_rows [OF assms(1) ive0 ive] nr0
    have nr: "length nr = length (concentration d)"
      "\<forall>i<length (concentration d). \<not> Fin 0 < concentration d ! i \<longrightarrow>
              nr ! i = (Fin (ln 2 + real n / 2 * ln pi) - tf_lgamma_half n) * Fin 1"
      by simp_all
    have lp: "r = map2 (\<lambda>u n. u - n) u nr"
      using r by (simp add: log_prob_def assms(8) u(1,2) nr0 nr(1) tf_binary_same)
    have "map2 (\<lambda>u n. u - n) u nr ! i = Fin (- ln (2 * pi powr (real n / 2) / gamma_half n))"
      if i: "i < length (concentration d)" and z: "concentration d ! i = Fin 0" for i
    proof -
      have xi: "list_all is_finite (x ! i)"
        using assms(7,5) i by (simp add: list_all_length)
      have mi: "list_all is_finite (mean_direction d ! i)"
        using assms(6,4) i by (simp add: list_all_length)
      have ui: "u ! i = Fin 0"
        using u(3) i z zero_times_inner [OF xi mi] by simp
      have ni: "nr ! i = Fin (ln 2 + real n / 2 * ln pi - ln (gamma_half n))"
        using nr(2) i z assms(2) by (simp add: tf_lgamma_half_def minus_fl_def)
      show ?thesis
        using i u(2) nr(1) ui ni log_surface_area [OF assms(2,3)]
        by (simp add: minus_fl_def)
    qed
    then show ?thesis using lp u(2) nr(1) by simp
  qed
  have returns: "\<exists>r. log_prob d x = Inr r" if fin: "list_all is_finite (concentration d)"
  proof -
    obtain ive where ive: "bessel_ive (of_nat n / 2 - 1) (safe_conc d) = Inr ive"
        "length ive = length (concentration d)"
      using bessel_ive_normalizer_returns [OF assms(2,3) fin] by blast
    obtain nr where nr: "log_normalization d = Inr nr" "length nr = length (concentration d)"
      using normalization_rows [OF assms(1) ive] by blast
    show ?thesis
      by (simp add: log_prob_def assms(8) u(1,2) nr tf_binary_same)
  qed
  from at_zero returns show ?thesis by blast
qed

text \<open>
  Witness for C6: a batch with \<open>\<kappa> = 0\<close> and \<open>\<kappa> = 1\<close> in dimension 3; \<open>logProb\<close> returns,
  and the entry of the element with \<open>\<kappa> = 0\<close> is \<open>- log (2 \<pi>\<^sup>3\<^sup>/\<^sup>2 / (sqrt \<pi> / 2))\<close>,
  that is \<open>- log (4 \<pi>)\<close>.
\<close>

theorem log_prob_uniform_limit_witness:
  "\<exists>r. log_prob \<lparr>mean_direction = [[Fin 0, Fin 1, Fin 0], [Fin 0, Fin 1, Fin 0]],
                 concentration = [Fin 0, Fin 1], event_dim = Some 3,
                 validate_args = False, allow_nan_stats = True\<rparr>
           [[Fin 1, Fin 0, Fin 0], [Fin 0, Fin 1, Fin 0]] = Inr r \<and>
       r ! 0 = Fin (- ln (2 * pi powr (3 / 2) / (sqrt pi / 2)))"
  using log_prob_uniform_limit [of "\<lparr>mean_direction = [[Fin 0, Fin 1, Fin 0], [Fin 0, Fin 1, Fin 0]],
                 concentration = [Fin 0, Fin 1], event_dim = Some 3,
                 validate_args = False, allow_nan_stats = True\<rparr>" 3
           "[[Fin 1, Fin 0, Fin 0], [Fin 0, Fin 1, Fin 0]]"]
  by (auto simp: maybe_assert_valid_sample_def gamma_half_values)

section \<open>Properties of the inversion sampler\<close>

lemma sample_3d_row:
  "tf_where (map (\<lambda>z. z = Fin 0) zr)
     (map (\<lambda>_. Fin (- 1))
        (tf_where (map (\<lambda>c. Fin 0 < c) cs)
           (map2 (\<lambda>c z. Fin 1 + reduce_logsumexp2 (tf_log z) (tf_log1p (- z) - Fin 2 * c) / c)
              (map (\<lambda>c. if Fin 0 < c then c else Fin 1) cs)
              (tf_where (map (\<lambda>z. Fin 0 < z) zr) zr (ones_like zr)))
           (map (\<lambda>z. Fin 2 * z - Fin 1) zr)))
     (tf_where (map (\<lambda>c. Fin 0 < c) cs)
           (map2 (\<lambda>c z. Fin 1 + reduce_logsumexp2 (tf_log z) (tf_log1p (- z) - Fin 2 * c) / c)
              (map (\<lambda>c. if Fin 0 < c then c else Fin 1) cs)
              (tf_where (map (\<lambda>z. Fin 0 < z) zr) zr (ones_like zr)))
           (map (\<lambda>z. Fin 2 * z - Fin 1) zr))
   = map2 lane_3d cs zr"
proof (induction zr arbitrary: cs)
  case Nil
  then show ?case by (simp add: tf_where_def)
next
  case (Cons z zr)
  show ?case
  proof (cases cs)
    case Nil
    then show ?thesis by (simp add: tf_where_def)
  next
    case (Cons c cs')
    have "map2 lane_3d cs' zr = tl (map2 lane_3d cs (z # zr))" using Cons by simp
    show ?thesis
      using Cons.IH [of cs'] unfolding Cons
      by (simp add: tf_where_def ones_like_def lane_3d_def Let_def)
  qed
qed

lemma sample_3d_lanes:
  "sample_3d d z =
     (let u = map (\<lambda>zr. map2 lane_3d (concentration d) zr) z
      in if \<not> allow_nan_stats d then check_numerics2 u ''u in _sample_3d'' else Inr u)"
proof -
  have "map2 (\<lambda>ur zr. tf_where (map (\<lambda>z. z = Fin 0) zr) (map (\<lambda>_. - Fin 1) ur) ur)
          (map2 (\<lambda>su zr. tf_where (map (\<lambda>c. Fin 0 < c) (concentration d)) su
                               (map (\<lambda>z. Fin 2 * z - Fin 1) zr))
             (map (\<lambda>zr. map2 (\<lambda>c z. Fin 1 + reduce_logsumexp2 (tf_log z)
                                         (tf_log1p (- z) - Fin 2 * c) / c)
                         (safe_conc d) zr)
                (map (\<lambda>zr. tf_where (map (\<lambda>z. Fin 0 < z) zr) zr (ones_like zr)) z)) z) z
        = map (\<lambda>zr. map2 lane_3d (concentration d) zr) z"
    by (induction z) (simp_all add: sample_3d_row safe_conc_eq)
  then show ?thesis by (simp add: sample_3d_def Let_def)
qed


lemma lane_3d_zero_concentration: "lane_3d (Fin 0) z = Fin 2 * z - Fin 1"
  by (simp add: lane_3d_def Let_def minus_fl_def)

lemma lane_3d_zero_draw: "lane_3d c (Fin 0) = Fin (- 1)"
  by (simp add: lane_3d_def Let_def)

lemma logsumexp2_finite:
  assumes "0 < s" "s \<le> 1" "0 < k"
  shows "is_finite (reduce_logsumexp2 (tf_log (Fin s)) (tf_log1p (- Fin s) - Fin 2 * Fin k))"
proof (cases "s < 1")
  case True
  then show ?thesis
    using assms
    by (simp add: reduce_logsumexp2_def tf_log1p_def minus_fl_def Let_def add_pos_pos)
next
  case False
  then have "s = 1" using assms by simp
  then show ?thesis
    by (simp add: reduce_logsumexp2_def tf_log1p_def minus_fl_def Let_def)
qed

lemma lane_3d_finite:
  assumes "is_finite c" "0 \<le> a" "a < 1"
  shows "is_finite (lane_3d c (Fin a))"
proof -
  obtain k where c: "c = Fin k" using assms(1) by (auto simp: is_finite_iff)
  define s where "s = (if 0 < a then a else 1)"
  define k' where "k' = (if 0 < k then k else 1)"
  have s: "0 < s" "s \<le> 1" using assms by (auto simp: s_def)
  have k': "0 < k'" by (auto simp: k'_def)
  obtain l where l: "reduce_logsumexp2 (tf_log (Fin s)) (tf_log1p (- Fin s) - Fin 2 * Fin k') = Fin l"
    using logsumexp2_finite [OF s k'] by (auto simp: is_finite_iff)
  have e1: "(if Fin 0 < Fin a then Fin a else Fin 1) = Fin s" by (simp add: s_def)
  have e2: "(if Fin 0 < c then c else Fin 1) = Fin k'" by (simp add: k'_def c)
  have "lane_3d c (Fin a) =
      (if Fin a = Fin 0 then - Fin 1
       else if Fin 0 < c then Fin 1 + Fin l / Fin k' else Fin 2 * Fin a - Fin 1)"
    by (simp only: lane_3d_def Let_def e1 e2 l)
  then show ?thesis using k' by (simp add: minus_fl_def)
qed

text \<open>
  Claim C9: in the sampler for \<open>D = 3\<close>, for uniform draws in \<open>[0, 1)\<close> (and finite
  concentrations) the sampler returns; at the batch elements with \<open>\<kappa> = 0\<close> the cosine is
  \<open>u = 2 z - 1\<close>, and wherever \<open>z = 0\<close> it is \<open>u = - 1\<close> exactly, whatever the
  concentration is (the two rules agree where both apply).
\<close>

theorem sample_3d_edge_cases:
  assumes "list_all is_finite (concentration d)"
    and "list_all (\<lambda>zr. length zr = length (concentration d)) z"
    and "list_all (list_all (\<lambda>x. \<exists>a. x = Fin a \<and> 0 \<le> a \<and> a < 1)) z"
  shows "\<exists>u. sample_3d d z = Inr u \<and> length u = length z \<and>
           (\<forall>i<length z. \<forall>j<length (concentration d).
              (concentration d ! j = Fin 0 \<longrightarrow> u ! i ! j = Fin 2 * (z ! i ! j) - Fin 1) \<and>
              (z ! i ! j = Fin 0 \<longrightarrow> u ! i ! j = Fin (- 1)))"
proof -
  let ?u = "map (\<lambda>zr. map2 lane_3d (concentration d) zr) z"
  have fin: "list_all (list_all is_finite) ?u"
  proof -
    have "is_finite (lane_3d c x)"
      if "c \<in> set (concentration d)" "zr \<in> set z" "x \<in> set zr" for c zr x
    proof -
      have c: "is_finite c" using assms(1) that(1) by (simp add: list_all_iff)
      from assms(3) that(2,3) obtain a where "x = Fin a" "0 \<le> a" "a < 1"
        by (auto simp: list_all_iff)
      with c show ?thesis by (simp add: lane_3d_finite)
    qed
    then show ?thesis by (auto simp: list_all_iff dest: set_zip_leftD set_zip_rightD)
  qed
  have ret: "sample_3d d z = Inr ?u"
    using fin by (simp add: sample_3d_lanes check_numerics2_def Let_def)
  have "?u ! i ! j = lane_3d (concentration d ! j) (z ! i ! j)"
    if "i < length z" "j < length (concentration d)" for i j
  proof -
    have "length (z ! i) = length (concentration d)"
      using assms(2) that(1) by (simp add: list_all_length)
    then show ?thesis using that by simp
  qed
  then show ?thesis
    using ret by (simp add: lane_3d_zero_concentration lane_3d_zero_draw)
qed

text \<open>Witness for C9: the draws \<open>1/4\<close> at \<open>\<kappa> = 0\<close> and \<open>0\<close> at \<open>\<kappa> = 1\<close>.\<close>

theorem sample_3d_edge_cases_witness:
  "\<exists>u. sample_3d \<lparr>mean_direction = [[Fin 0, Fin 1, Fin 0], [Fin 0, Fin 1, Fin 0]],
                   concentration = [Fin 0, Fin 1], event_dim = Some 3,
                   validate_args = False, allow_nan_stats = False\<rparr>
           [[Fin (1 / 4), Fin 0]] = Inr u \<and>
       u ! 0 ! 0 = Fin (- 1 / 2) \<and> u ! 0 ! 1 = Fin (- 1)"
proof -
  let ?d = "\<lparr>mean_direction = [[Fin 0, Fin 1, Fin 0], [Fin 0, Fin 1, Fin 0]],
                   concentration = [Fin 0, Fin 1], event_dim = Some 3,
                   validate_args = False, allow_nan_stats = False\<rparr>"
  have q: "\<exists>a::real. Fin (1 / 4) = Fin a \<and> 0 \<le> a \<and> a < 1"
    by (intro exI [of _ "1 / 4"]) simp
  have "list_all (list_all (\<lambda>x. \<exists>a. x = Fin a \<and> 0 \<le> a \<and> a < 1)) [[Fin (1 / 4), Fin 0]]"
    using q by simp
  from sample_3d_edge_cases [of ?d "[[Fin (1 / 4), Fin 0]]", OF _ _ this]
  obtain u where u: "sample_3d ?d [[Fin (1 / 4), Fin 0]] = Inr u"
    "\<forall>i<length [[Fin (1 / 4), Fin 0 :: fl]]. \<forall>j<length (concentration ?d).
              (concentration ?d ! j = Fin 0 \<longrightarrow>
                 u ! i ! j = Fin 2 * ([[Fin (1 / 4), Fin 0]] ! i ! j) - Fin 1) \<and>
              ([[Fin (1 / 4), Fin 0]] ! i ! j = Fin 0 \<longrightarrow> u ! i ! j = Fin (- 1))"
    by auto
  from u(2) have "u ! 0 ! 0 = Fin 2 * Fin (1 / 4) - Fin 1" by simp
  moreover from u(2) have "u ! 0 ! 1 = Fin (- 1)" by simp
  ultimately show ?thesis using u(1) by (simp add: minus_fl_def)
qed

section \<open>The numerical checks and \<open>allow_nan_stats\<close>\<close>

lemma mean_infinite_concentration:
  "mean \<lparr>mean_direction = [[Fin 0, Fin 1, Fin 0]], concentration = [PInf], event_dim = Some 3,
         validate_args = False, allow_nan_stats = True\<rparr> = Inl (BesselNotFinite (- (1 / 2)))"
  by (simp add: mean_def safe_conc_eq bessel_ive_three_halves bessel_ive_neg_half wrap_def
      coshe_def minus_fl_def)

lemma sample_dim0_nan_concentration:
  "sample_dim0 \<lparr>mean_direction = [[Fin 1, Fin 0]], concentration = [NaN], event_dim = Some 2,
             validate_args = False, allow_nan_stats = True\<rparr> 1
     \<lparr>uniform_3d = [], beta_draw = (\<lambda>_. [[Fin (1 / 2)]]),
      uniform_draw = (\<lambda>_. [[Fin (1 / 2)]]), normal_draw = [[[Fin 1]]]\<rparr> =
   Some (Inl (InvalidArgumentError ''w''))"
  apply (simp add: sample_dim0_def the_event_dim_def Let_def)
  apply (subst while_loop.simps)
  apply (simp add: cond_fn_def body_fn_def check_numerics2_def tf_where_def Let_def minus_fl_def)
  done

lemma sample_nan_concentration:
  "sample_n \<lparr>mean_direction = [[Fin 1, Fin 0]], concentration = [NaN], event_dim = Some 2,
             validate_args = False, allow_nan_stats = True\<rparr> 1
     \<lparr>uniform_3d = [], beta_draw = (\<lambda>_. [[Fin (1 / 2)]]),
      uniform_draw = (\<lambda>_. [[Fin (1 / 2)]]), normal_draw = [[[Fin 1]]]\<rparr> =
   Some (Inl (InvalidArgumentError ''w''))"
  unfolding sample_n_def sample_dim0_nan_concentration by simp

text \<open>
  Claim C3 says that a non-finite Bessel value and a non-finite candidate \<open>w\<close> of the
  rejection loop raise only when \<open>allow_nan_stats\<close> is false. The two \<open>check_numerics\<close>
  of \<open>_bessel_ive\<close> and of \<open>body_fn\<close> do not look at the flag, unlike those of
  \<open>_sample_3d\<close> and of the end of \<open>_sample_n\<close>: with \<open>allow_nan_stats\<close> true, the mean
  at concentration \<open>+\<infinity>\<close> raises the error of \<open>besseli-0.5\<close>, and sampling in dimension 2
  at concentration NaN raises the error of \<open>w\<close>.
\<close>

theorem unconditional_check_numerics:
  "allow_nan_stats \<lparr>mean_direction = [[Fin 0, Fin 1, Fin 0]], concentration = [PInf],
         event_dim = Some 3, validate_args = False, allow_nan_stats = True\<rparr> \<and>
   mean \<lparr>mean_direction = [[Fin 0, Fin 1, Fin 0]], concentration = [PInf], event_dim = Some 3,
         validate_args = False, allow_nan_stats = True\<rparr> = Inl (BesselNotFinite (- (1 / 2))) \<and>
   sample_n \<lparr>mean_direction = [[Fin 1, Fin 0]], concentration = [NaN], event_dim = Some 2,
             validate_args = False, allow_nan_stats = True\<rparr> 1
     \<lparr>uniform_3d = [], beta_draw = (\<lambda>_. [[Fin (1 / 2)]]),
      uniform_draw = (\<lambda>_. [[Fin (1 / 2)]]), normal_draw = [[[Fin 1]]]\<rparr> =
   Some (Inl (InvalidArgumentError ''w''))"
  using mean_infinite_concentration sample_nan_concentration by simp

section \<open>Properties of the rotation\<close>

lemma finite_list_reals: "list_all is_finite v \<Longrightarrow> v = map Fin (map the_fin v)"
  by (induction v) (auto simp: is_finite_iff)

lemma reduce_sum_reals: "reduce_sum (map Fin xs) = Fin (sum_list xs)"
  by (induction xs) (simp_all add: reduce_sum_def)

lemma map2_times_reals: "map2 (*) (map Fin xs) (map Fin ys) = map Fin (map2 (*) xs ys)"
  by (induction xs arbitrary: ys) (case_tac ys; simp)+

lemma map2_minus_reals:
  "map2 (\<lambda>a q. a - q) (map Fin xs) (map Fin ys) = map Fin (map2 (\<lambda>a q. a - q) xs ys)"
proof (induction xs arbitrary: ys)
  case Nil
  then show ?case by simp
next
  case (Cons x xs)
  then show ?case by (cases ys) (simp_all add: minus_fl_def)
qed

lemma householder_reals:
  "householder (map Fin us) (map Fin xs) =
     map Fin (map2 (\<lambda>a c. a - 2 * sum_list (map2 (*) xs us) * c) xs us)"
proof -
  have "map (\<lambda>c. Fin 2 * reduce_sum (map2 (*) (map Fin xs) (map Fin us)) * c) (map Fin us) =
        map Fin (map (\<lambda>c. 2 * sum_list (map2 (*) xs us) * c) us)"
    unfolding map2_times_reals reduce_sum_reals by simp
  moreover have "map2 (\<lambda>a q. a - q) xs (map (\<lambda>c. 2 * sum_list (map2 (*) xs us) * c) us) =
        map2 (\<lambda>a c. a - 2 * sum_list (map2 (*) xs us) * c) xs us"
    by (simp add: zip_map2 map_zip_map2 case_prod_unfold)
  ultimately show ?thesis
    unfolding householder_def by (simp only: map2_minus_reals)
qed

lemma dot_after_reflection:
  fixes t :: real
  assumes "length xs = length us"
  shows "sum_list (map2 (*) (map2 (\<lambda>a c. a - t * c) xs us) us) =
         sum_list (map2 (*) xs us) - t * sum_list (map2 (*) us us)"
  using assms by (induction xs us rule: list_induct2) (simp_all add: algebra_simps)

lemma reflect_twice:
  fixes t t' :: real
  assumes "length xs = length us"
  shows "map2 (\<lambda>a c. a - t' * c) (map2 (\<lambda>a c. a - t * c) xs us) us =
         map2 (\<lambda>a c. a - (t + t') * c) xs us"
  using assms by (induction xs us rule: list_induct2) (simp_all add: algebra_simps)

lemma map2_fst: "length xs = length us \<Longrightarrow> map2 (\<lambda>a c. a) xs us = xs"
  by (induction xs us rule: list_induct2) simp_all

lemma householder_involution_reals:
  assumes "length xs = length us"
    and "sum_list (map2 (*) us us) = 1 \<or> (\<forall>c \<in> set us. c = 0)"
  shows "householder (map Fin us) (householder (map Fin us) (map Fin xs)) = map Fin xs"
proof -
  let ?s = "sum_list (map2 (*) xs us)"
  let ?y = "map2 (\<lambda>a c. a - 2 * ?s * c) xs us"
  have len: "length ?y = length us" using assms(1) by simp
  have "householder (map Fin us) (householder (map Fin us) (map Fin xs)) =
        map Fin (map2 (\<lambda>a c. a - 2 * sum_list (map2 (*) ?y us) * c) ?y us)"
    by (simp only: householder_reals)
  also have "map2 (\<lambda>a c. a - 2 * sum_list (map2 (*) ?y us) * c) ?y us =
        map2 (\<lambda>a c. a - (2 * ?s + 2 * sum_list (map2 (*) ?y us)) * c) xs us"
    by (rule reflect_twice [OF assms(1)])
  also have "\<dots> = xs"
  proof -
    have dot: "sum_list (map2 (*) ?y us) = ?s - 2 * ?s * sum_list (map2 (*) us us)"
      by (rule dot_after_reflection [OF assms(1)])
    from assms(2) show ?thesis
    proof
      assume "sum_list (map2 (*) us us) = 1"
      then have "2 * ?s + 2 * sum_list (map2 (*) ?y us) = 0" using dot by simp
      then show ?thesis by (simp add: map2_fst [OF assms(1)])
    next
      assume z: "\<forall>c \<in> set us. c = 0"
      have "map2 (\<lambda>a c. a - k * c) xs us = xs" for k :: real
        using assms(1) z by (induction xs us rule: list_induct2) simp_all
      then show ?thesis .
    qed
  qed
  finally show ?thesis .
qed


lemma less_eq_Fin [simp]: "Fin a \<le> Fin b \<longleftrightarrow> a \<le> b"
  by (auto simp: less_eq_fl_def)

lemma l2_normalize_reals:
  "l2_normalize (map Fin vs) =
     map Fin (map (\<lambda>a. a * (1 / sqrt (max (sum_list (map (\<lambda>a. a * a) vs)) (1 / 10 ^ 12)))) vs)"
proof -
  let ?q = "sum_list (map (\<lambda>a. a * a) vs)"
  have "map (\<lambda>a. a * a) (map Fin vs) = map Fin (map (\<lambda>a. a * a) vs)" by simp
  then have q: "reduce_sum (map (\<lambda>a. a * a) (map Fin vs)) = Fin ?q"
    by (simp only: reduce_sum_reals)
  have m: "tf_maximum (Fin ?q) (Fin (1 / 10 ^ 12)) = Fin (max ?q (1 / 10 ^ 12))"
    by (simp add: max_def)
  have pos: "0 < max ?q (1 / 10 ^ 12)" by (simp add: less_max_iff_disj)
  have r: "tf_rsqrt (Fin (max ?q (1 / 10 ^ 12))) = Fin (1 / sqrt (max ?q (1 / 10 ^ 12)))"
    using pos by (simp del: max_less_iff_conj less_max_iff_disj)
  show ?thesis
    unfolding l2_normalize_def q Let_def m r by simp
qed

lemma squares_scaled:
  fixes k :: real
  shows "sum_list (map2 (*) (map (\<lambda>a. a * k) vs) (map (\<lambda>a. a * k) vs)) =
         k * k * sum_list (map (\<lambda>a. a * a) vs)"
  by (induction vs) (simp_all add: algebra_simps)

lemma l2_normalize_unit_or_zero:
  assumes "1 / 10 ^ 12 \<le> sum_list (map (\<lambda>a. a * a) vs) \<or> (\<forall>a \<in> set vs. a = 0)"
  shows "\<exists>us. l2_normalize (map Fin vs) = map Fin us \<and> length us = length vs \<and>
           (sum_list (map2 (*) us us) = 1 \<or> (\<forall>c \<in> set us. c = 0))"
proof -
  let ?q = "sum_list (map (\<lambda>a. a * a) vs)"
  let ?k = "1 / sqrt (max ?q (1 / 10 ^ 12))"
  let ?us = "map (\<lambda>a. a * ?k) vs"
  have "sum_list (map2 (*) ?us ?us) = 1 \<or> (\<forall>c \<in> set ?us. c = 0)"
    using assms
  proof
    assume big: "1 / 10 ^ 12 \<le> ?q"
    then have mx: "max ?q (1 / 10 ^ 12) = ?q" by simp
    have qpos: "0 < ?q" using big by (rule less_le_trans [rotated]) simp
    have kk: "?k * ?k = 1 / ?q"
      unfolding mx using qpos by (simp add: field_simps)
    have "sum_list (map2 (*) ?us ?us) = ?k * ?k * ?q" by (rule squares_scaled)
    also have "\<dots> = 1 / ?q * ?q" by (simp only: kk)
    also have "\<dots> = 1" using qpos by simp
    finally show ?thesis ..
  next
    assume "\<forall>a \<in> set vs. a = 0"
    then have "\<forall>c \<in> set ?us. c = 0" by auto
    then show ?thesis ..
  qed
  then show ?thesis by (intro exI [of _ ?us]) (simp add: l2_normalize_reals)
qed

lemma basis_vector_reals: "basis_vector n = map Fin (1 # replicate (n - 1) 0)"
  by (simp add: basis_vector_def)

lemma length_basis_diff:
  "length m = n \<Longrightarrow> length (map2 (\<lambda>a q. a - q) (1 # replicate (n - 1) (0::real)) m) = n"
  by (cases n) auto

lemma map2_minus_self_zero: "\<forall>a \<in> set (map2 (\<lambda>a q. a - q) xs xs). a = (0::real)"
  by (induction xs) simp_all

lemma reflector_unit_or_zero:
  assumes "list_all is_finite m" and "length m = n"
    and "m = basis_vector n \<or>
         Fin (1 / 10 ^ 12) \<le>
           reduce_sum (map (\<lambda>a. a * a) (map2 (\<lambda>a q. a - q) (basis_vector n) m))"
  shows "\<exists>us. l2_normalize (map2 (\<lambda>a q. a - q) (basis_vector n) m) = map Fin us \<and>
           length us = n \<and> (sum_list (map2 (*) us us) = 1 \<or> (\<forall>c \<in> set us. c = 0))"
proof -
  let ?bs = "1 # replicate (n - 1) (0::real)"
  obtain ms where ms: "m = map Fin ms" using finite_list_reals [OF assms(1)] ..
  have lms: "length ms = n" using assms(2) ms by simp
  let ?vs = "map2 (\<lambda>a q. a - q) ?bs ms"
  have diff: "map2 (\<lambda>a q. a - q) (basis_vector n) m = map Fin ?vs"
    unfolding basis_vector_reals ms by (rule map2_minus_reals)
  have lvs: "length ?vs = n" using lms by (rule length_basis_diff)
  have "1 / 10 ^ 12 \<le> sum_list (map (\<lambda>a. a * a) ?vs) \<or> (\<forall>a \<in> set ?vs. a = 0)"
    using assms(3)
  proof
    assume "m = basis_vector n"
    then have "map Fin ms = map Fin ?bs"
      unfolding ms basis_vector_reals .
    then have "ms = ?bs"
      by (rule map_injective) (simp add: inj_on_def)
    then show ?thesis using map2_minus_self_zero [of ?bs] by simp
  next
    assume "Fin (1 / 10 ^ 12) \<le>
           reduce_sum (map (\<lambda>a. a * a) (map2 (\<lambda>a q. a - q) (basis_vector n) m))"
    moreover have "map (\<lambda>a. a * a) (map Fin ?vs) = map Fin (map (\<lambda>a. a * a) ?vs)" by simp
    ultimately have "Fin (1 / 10 ^ 12) \<le> Fin (sum_list (map (\<lambda>a. a * a) ?vs))"
      unfolding diff by (simp only: reduce_sum_reals)
    then show ?thesis by simp
  qed
  from l2_normalize_unit_or_zero [OF this] lvs show ?thesis unfolding diff by auto
qed


lemma map2_involution:
  assumes "length s = length us" and "\<forall>i<length us. f (f (s ! i) (us ! i)) (us ! i) = s ! i"
  shows "map2 f (map2 f s us) us = s"
  using assms by (intro nth_equalityI) simp_all

text \<open>
  The reflection is its own inverse whenever every mean direction is the basis vector
  \<open>e\<^sub>1\<close> itself or lies at a squared distance of at least \<open>1e-12\<close> (the epsilon of
  \<open>l2_normalize\<close>) from it: then \<open>u\<close> is zero or a unit vector.
\<close>

proposition rotate_involution:
  assumes "list_all (\<lambda>m. length m = the_event_dim d \<and> list_all is_finite m \<and>
              (m = basis_vector (the_event_dim d) \<or>
               Fin (1 / 10 ^ 12) \<le>
                 reduce_sum (map (\<lambda>a. a * a)
                   (map2 (\<lambda>a q. a - q) (basis_vector (the_event_dim d)) m))))
            (mean_direction d)"
    and "list_all (\<lambda>s. length s = length (mean_direction d) \<and>
              list_all (\<lambda>x. length x = the_event_dim d \<and> list_all is_finite x) s) samples"
  shows "rotate_vmf d (rotate_vmf d samples) = samples"
proof -
  let ?n = "the_event_dim d"
  let ?U = "map (\<lambda>m. l2_normalize (map2 (\<lambda>a q. a - q) (basis_vector ?n) m)) (mean_direction d)"
  have row: "householder (?U ! i) (householder (?U ! i) x) = x"
    if i: "i < length (mean_direction d)" and x: "length x = ?n" "list_all is_finite x" for i x
  proof -
    let ?m = "mean_direction d ! i"
    have m: "length ?m = ?n" "list_all is_finite ?m"
      "?m = basis_vector ?n \<or>
         Fin (1 / 10 ^ 12) \<le>
           reduce_sum (map (\<lambda>a. a * a) (map2 (\<lambda>a q. a - q) (basis_vector ?n) ?m))"
      using assms(1) i by (simp_all add: list_all_length)
    obtain us where us: "l2_normalize (map2 (\<lambda>a q. a - q) (basis_vector ?n) ?m) = map Fin us"
      "length us = ?n" "sum_list (map2 (*) us us) = 1 \<or> (\<forall>c \<in> set us. c = 0)"
      using reflector_unit_or_zero [OF m(2) m(1) m(3)] by blast
    obtain xs where xs: "x = map Fin xs" using finite_list_reals [OF x(2)] ..
    have "length xs = length us" using x(1) xs us(2) by simp
    from householder_involution_reals [OF this us(3)]
    show ?thesis using i us(1) xs by simp
  qed
  have sample: "map2 (\<lambda>x u. householder u x) (map2 (\<lambda>x u. householder u x) s ?U) ?U = s"
    if s: "s \<in> set samples" for s
  proof -
    have ls: "length s = length (mean_direction d)"
      and rows: "list_all (\<lambda>x. length x = ?n \<and> list_all is_finite x) s"
      using assms(2) s by (simp_all add: list_all_iff)
    show ?thesis
    proof (rule map2_involution)
      show "length s = length ?U" using ls by simp
      show "\<forall>i<length ?U.
              householder (?U ! i) (householder (?U ! i) (s ! i)) = s ! i"
        using rows ls row by (simp add: list_all_length)
    qed
  qed
  have "rotate_vmf d (rotate_vmf d samples) =
        map (\<lambda>s. map2 (\<lambda>x u. householder u x) (map2 (\<lambda>x u. householder u x) s ?U) ?U) samples"
    by (simp add: rotate_vmf_def Let_def)
  also have "\<dots> = samples"
    using sample by (simp add: map_idI)
  finally show ?thesis .
qed


proposition rotate_involution_instance:
  "rotate_vmf \<lparr>mean_direction = [[Fin 0, Fin 1, Fin 0], [Fin 1, Fin 0, Fin 0]],
           concentration = [Fin 1, Fin 2], event_dim = Some 3,
           validate_args = False, allow_nan_stats = True\<rparr>
     (rotate_vmf \<lparr>mean_direction = [[Fin 0, Fin 1, Fin 0], [Fin 1, Fin 0, Fin 0]],
           concentration = [Fin 1, Fin 2], event_dim = Some 3,
           validate_args = False, allow_nan_stats = True\<rparr>
        [[[Fin 1, Fin 2, Fin 3], [Fin 4, Fin 5, Fin 6]]]) =
   [[[Fin 1, Fin 2, Fin 3], [Fin 4, Fin 5, Fin 6]]]"
  by (rule rotate_involution)
    (simp_all add: the_event_dim_def basis_vector_def reduce_sum_def minus_fl_def
      numeral_eq_Suc)

lemma sqrt_epsilon: "sqrt (1 / 10 ^ 12) = 1 / 10 ^ 6"
proof -
  have "(1 / 10 ^ 12 :: real) = (1 / 10 ^ 6)\<^sup>2" by (simp add: power2_eq_square)
  then have "sqrt (1 / 10 ^ 12) = \<bar>1 / 10 ^ 6 :: real\<bar>" by (simp only: real_sqrt_abs)
  then show ?thesis by simp
qed

lemma sqrt_epsilon_numeral: "sqrt (1 / 1000000000000) = 1 / 1000000"
  using sqrt_epsilon by simp

lemma near_basis_reflector:
  "l2_normalize (map2 (\<lambda>a q. a - q) (basis_vector 2)
      [Fin (99999999999999 / 100000000000001), Fin (20000000 / 100000000000001)]) =
   [Fin (2000000 / 100000000000001), Fin (- (20000000000000 / 100000000000001))]"
  unfolding basis_vector_def
  by (simp add: minus_fl_def l2_normalize_def reduce_sum_def Let_def sqrt_epsilon_numeral)

lemma near_basis_unit:
  "norm_fl [Fin (99999999999999 / 100000000000001), Fin (20000000 / 100000000000001)] = Fin 1"
  by (simp add: norm_fl_def reduce_sum_def)

lemma near_basis_rotate:
  "rotate_vmf \<lparr>mean_direction =
             [[Fin (99999999999999 / 100000000000001), Fin (20000000 / 100000000000001)]],
           concentration = cs, event_dim = Some 2,
           validate_args = va, allow_nan_stats = an\<rparr> [[[Fin a, Fin b]]] =
   [[[Fin (a - (8000000000000 * a / 100000000000001 -
                80000000000000000000 * b / 100000000000001) / 100000000000001),
      Fin (b + (80000000000000000000 * a / 100000000000001 -
                800000000000000000000000000 * b / 100000000000001) / 100000000000001)]]]"
  apply (simp add: rotate_vmf_def the_event_dim_def Let_def near_basis_reflector)
  apply (simp add: householder_def reduce_sum_def minus_fl_def)
  done

text \<open>
  Claim C7 says that \<open>rotate (rotate v) = v\<close> for every vector \<open>v\<close> and every unit mean
  direction. For a unit mean direction closer than \<open>1e-6\<close> to \<open>e\<^sub>1\<close>, but different from
  it, \<open>l2_normalize\<close> divides the difference \<open>e\<^sub>1 - \<mu>\<close> by \<open>1e-6\<close> and not by its norm,
  \<open>u\<close> is not a unit vector and the map is no reflection: for the unit vector
  \<open>\<mu> = ((1 - t\<^sup>2) / (1 + t\<^sup>2), 2 t / (1 + t\<^sup>2))\<close> with \<open>t = 1e-7\<close>, rotating \<open>(0, 1)\<close> twice
  does not give \<open>(0, 1)\<close> back.
\<close>

theorem rotate_near_basis_counterexample:
  "norm_fl [Fin (99999999999999 / 100000000000001), Fin (20000000 / 100000000000001)] = Fin 1 \<and>
   rotate_vmf \<lparr>mean_direction =
             [[Fin (99999999999999 / 100000000000001), Fin (20000000 / 100000000000001)]],
           concentration = [Fin 1], event_dim = Some 2,
           validate_args = True, allow_nan_stats = False\<rparr>
     (rotate_vmf \<lparr>mean_direction =
             [[Fin (99999999999999 / 100000000000001), Fin (20000000 / 100000000000001)]],
           concentration = [Fin 1], event_dim = Some 2,
           validate_args = True, allow_nan_stats = False\<rparr> [[[Fin 0, Fin 1]]]) \<noteq>
   [[[Fin 0, Fin 1]]]"
  unfolding near_basis_rotate near_basis_unit by simp

section \<open>Properties of the samples\<close>

lemma l2_normalize_unit:
  assumes "1 / 10 ^ 12 \<le> sum_list (map (\<lambda>a. a * a) vs)"
  shows "\<exists>us. l2_normalize (map Fin vs) = map Fin us \<and> length us = length vs \<and>
           sum_list (map2 (*) us us) = 1"
proof -
  let ?q = "sum_list (map (\<lambda>a. a * a) vs)"
  let ?k = "1 / sqrt (max ?q (1 / 10 ^ 12))"
  let ?us = "map (\<lambda>a. a * ?k) vs"
  have mx: "max ?q (1 / 10 ^ 12) = ?q" using assms by simp
  have qpos: "0 < ?q" using assms by (rule less_le_trans [rotated]) simp
  have kk: "?k * ?k = 1 / ?q"
    unfolding mx using qpos by (simp add: field_simps)
  have "sum_list (map2 (*) ?us ?us) = ?k * ?k * ?q" by (rule squares_scaled)
  also have "\<dots> = 1 / ?q * ?q" by (simp only: kk)
  also have "\<dots> = 1" using qpos by simp
  finally show ?thesis by (intro exI [of _ ?us]) (simp add: l2_normalize_reals)
qed

lemma squares_as_map2: "map (\<lambda>a. a * a) xs = map2 (*) xs (xs :: real list)"
  by (induction xs) simp_all

lemma assemble_unit:
  assumes "list_all is_finite g"
    and "Fin (1 / 10 ^ 12) \<le> reduce_sum (map (\<lambda>a. a * a) g)"
  shows "\<exists>xs. l2_normalize (assemble (Fin a) g) = map Fin xs \<and> length xs = Suc (length g) \<and>
           sum_list (map2 (*) xs xs) = 1"
proof -
  obtain gs where gs: "g = map Fin gs" using finite_list_reals [OF assms(1)] ..
  have "map (\<lambda>a. a * a) (map Fin gs) = map Fin (map (\<lambda>a. a * a) gs)" by simp
  then have "reduce_sum (map (\<lambda>a. a * a) g) = Fin (sum_list (map (\<lambda>a. a * a) gs))"
    unfolding gs by (simp only: reduce_sum_reals)
  then have "1 / 10 ^ 12 \<le> sum_list (map (\<lambda>a. a * a) gs)" using assms(2) by simp
  from l2_normalize_unit [OF this]
  obtain os where os: "l2_normalize g = map Fin os" "length os = length gs"
    "sum_list (map2 (*) os os) = 1"
    unfolding gs by blast
  let ?s = "sqrt (max (1 - a * a) 0)"
  let ?ys = "a # map (\<lambda>other. ?s * other) os"
  have s: "tf_sqrt (tf_maximum (Fin 1 - Fin a * Fin a) (Fin 0)) = Fin ?s"
    by (simp add: minus_fl_def max_def)
  have asm: "assemble (Fin a) g = map Fin ?ys"
    unfolding assemble_def os(1) s by simp
  have "sum_list (map2 (*) (map (\<lambda>other. ?s * other) os) (map (\<lambda>other. ?s * other) os)) =
        ?s * ?s * sum_list (map (\<lambda>a. a * a) os)"
    using squares_scaled [of ?s os] by (simp add: mult.commute)
  also have "\<dots> = max (1 - a * a) 0"
    using os(3) by (simp add: squares_as_map2)
  finally have "sum_list (map2 (*) ?ys ?ys) = a * a + max (1 - a * a) 0" by simp
  then have "1 \<le> sum_list (map (\<lambda>a. a * a) ?ys)"
    unfolding squares_as_map2 by (simp add: max_def)
  then have "1 / 10 ^ 12 \<le> sum_list (map (\<lambda>a. a * a) ?ys)"
    by (rule order_trans [rotated]) simp
  from l2_normalize_unit [OF this]
  show ?thesis unfolding asm using os(2) gs by auto
qed

lemma squares_after_reflection:
  fixes t :: real
  assumes "length xs = length us"
  shows "sum_list (map2 (*) (map2 (\<lambda>a c. a - t * c) xs us) (map2 (\<lambda>a c. a - t * c) xs us)) =
         sum_list (map2 (*) xs xs) - 2 * t * sum_list (map2 (*) xs us) +
         t * t * sum_list (map2 (*) us us)"
  using assms by (induction xs us rule: list_induct2) (simp_all add: algebra_simps)

lemma householder_norm_reals:
  assumes "length xs = length us"
    and "sum_list (map2 (*) us us) = 1 \<or> (\<forall>c \<in> set us. c = 0)"
  shows "\<exists>ys. householder (map Fin us) (map Fin xs) = map Fin ys \<and>
           sum_list (map2 (*) ys ys) = sum_list (map2 (*) xs xs)"
proof -
  let ?s = "sum_list (map2 (*) xs us)"
  let ?ys = "map2 (\<lambda>a c. a - 2 * ?s * c) xs us"
  have "sum_list (map2 (*) ?ys ?ys) = sum_list (map2 (*) xs xs)"
    using assms(2)
  proof
    assume "sum_list (map2 (*) us us) = 1"
    then show ?thesis
      using squares_after_reflection [OF assms(1), of "2 * ?s"] by simp
  next
    assume z: "\<forall>c \<in> set us. c = 0"
    have "map2 (\<lambda>a c. a - k * c) xs us = xs" for k :: real
      using assms(1) z by (induction xs us rule: list_induct2) simp_all
    then show ?thesis by simp
  qed
  then show ?thesis by (intro exI [of _ ?ys]) (simp add: householder_reals)
qed

lemma norm_fl_reals: "norm_fl (map Fin xs) = Fin (sqrt (sum_list (map2 (*) xs xs)))"
proof -
  have "0 \<le> sum_list (map2 (*) xs xs)" by (induction xs) simp_all
  then show ?thesis
    unfolding norm_fl_def map2_times_reals reduce_sum_reals by simp
qed

lemma set_map2:
  "x \<in> set (map2 f xs ys) \<Longrightarrow> \<exists>a \<in> set xs. \<exists>b \<in> set ys. x = f a b"
  by (auto dest: set_zip_leftD set_zip_rightD)


lemma body_fn_finite:
  "body_fn d dim_f b x c z uniform w sc = Inr (w', sc') \<Longrightarrow> list_all (list_all is_finite) w'"
  by (auto simp: body_fn_def check_numerics2_def Let_def split: if_splits)

lemmas while_loop_induct =
  while_loop.raw_induct [where xa = "((((((((d, dim_f), b), x), c), r), i), w), sc)",
    simplified] for d dim_f b x c r i w sc

lemma while_loop_finite_step:
  assumes "while_loop d dim_f b x c r i w sc = Some y"
  shows "list_all (list_all is_finite) w \<longrightarrow>
          (\<forall>out. y = Inr out \<longrightarrow> list_all (list_all is_finite) out)"
proof (rule while_loop_induct [where P = "\<lambda>d dim_f b x c r i w sc y.
          list_all (list_all is_finite) w \<longrightarrow>
          (\<forall>out. y = Inr out \<longrightarrow> list_all (list_all is_finite) out)", OF _ assms])
  fix loop d dim_f b x c r i w sc y
  assume IH: "\<And>d dim_f b x c r i w sc y. loop d dim_f b x c r i w sc = Some y \<Longrightarrow>
          list_all (list_all is_finite) w \<longrightarrow>
          (\<forall>out. y = Inr out \<longrightarrow> list_all (list_all is_finite) out)"
    and eq: "(if \<not> cond_fn sc then Some (Inr w)
      else case body_fn d dim_f b x c (beta_draw r i) (uniform_draw r i) w sc of
           Inl e \<Rightarrow> Some (Inl e)
           | Inr (w', sc') \<Rightarrow> loop d dim_f b x c r (Suc i) w' sc') = Some y"
  show "list_all (list_all is_finite) w \<longrightarrow>
          (\<forall>out. y = Inr out \<longrightarrow> list_all (list_all is_finite) out)"
  proof (cases "cond_fn sc")
    case False
    then show ?thesis using eq by auto
  next
    case True
    show ?thesis
    proof (cases "body_fn d dim_f b x c (beta_draw r i) (uniform_draw r i) w sc")
      case (Inl e)
      then show ?thesis using eq True by auto
    next
      case (Inr p)
      obtain w' sc' where p: "p = (w', sc')" by (cases p)
      have "loop d dim_f b x c r (Suc i) w' sc' = Some y"
        using eq True Inr p by simp
      from IH [OF this] body_fn_finite [OF Inr [unfolded p]]
      show ?thesis by simp
    qed
  qed
qed

lemma while_loop_finite:
  assumes "while_loop d dim_f b x c r i w sc = Some (Inr out)"
    and "list_all (list_all is_finite) w"
  shows "list_all (list_all is_finite) out"
  using while_loop_finite_step [OF assms(1)] assms(2) by simp


lemma lanes_finite:
  assumes "list_all is_finite cs"
    and "list_all (list_all (\<lambda>x. \<exists>a. x = Fin a \<and> 0 \<le> a \<and> a < 1)) z"
  shows "list_all (list_all is_finite) (map (\<lambda>zr. map2 lane_3d cs zr) z)"
proof -
  have "is_finite (lane_3d c x)" if "c \<in> set cs" "zr \<in> set z" "x \<in> set zr" for c zr x
  proof -
    have c: "is_finite c" using assms(1) that(1) by (simp add: list_all_iff)
    from assms(2) that(2,3) obtain a where "x = Fin a" "0 \<le> a" "a < 1"
      by (auto simp: list_all_iff)
    with c show ?thesis by (simp add: lane_3d_finite)
  qed
  then show ?thesis by (auto simp: list_all_iff dest: set_zip_leftD set_zip_rightD)
qed

lemma sample_dim0_finite:
  assumes "sample_dim0 d n r = Some (Inr sd0)"
    and "event_dim d = Some 3 \<longrightarrow>
           list_all is_finite (concentration d) \<and>
           list_all (list_all (\<lambda>x. \<exists>a. x = Fin a \<and> 0 \<le> a \<and> a < 1)) (uniform_3d r)"
  shows "list_all (list_all is_finite) sd0"
proof (cases "event_dim d = Some 3")
  case True
  then have "sample_3d d (uniform_3d r) = Inr sd0"
    using assms(1) by (simp add: sample_dim0_def)
  then have "sd0 = map (\<lambda>zr. map2 lane_3d (concentration d) zr) (uniform_3d r)"
    by (auto simp: sample_3d_lanes Let_def check_numerics2_def split: if_splits)
  then show ?thesis using lanes_finite assms(2) True by simp
next
  case False
  have "list_all (list_all is_finite) (replicate n (map (\<lambda>_. Fin 0) (concentration d)))"
    by (simp add: list_all_iff)
  moreover from False assms(1) obtain dim_f b x c where
    "while_loop d dim_f b x c r 0 (replicate n (map (\<lambda>_. Fin 0) (concentration d)))
       (replicate n (map (\<lambda>_. True) (concentration d))) = Some (Inr sd0)"
    by (auto simp: sample_dim0_def Let_def)
  ultimately show ?thesis by (rule while_loop_finite [rotated])
qed

lemma sample_n_returned:
  assumes "sample_n d n r = Some (Inr samples)"
  shows "\<exists>sd0. sample_dim0 d n r = Some (Inr sd0) \<and>
           samples = rotate_vmf d (map2 (map2 (\<lambda>u normal. l2_normalize (assemble u normal)))
                                 sd0 (normal_draw r))"
  using assms
  by (auto simp: sample_n_def Let_def split: option.splits sum.splits if_splits)

lemma degenerate_loop_example:
  "sample_dim0 \<lparr>mean_direction = md, concentration = [Fin 0], event_dim = Some 2,
                validate_args = va, allow_nan_stats = an\<rparr> 1
     \<lparr>uniform_3d = [], beta_draw = (\<lambda>_. [[Fin (1 / 2)]]),
      uniform_draw = (\<lambda>_. [[Fin (1 / 2)]]), normal_draw = nd\<rparr> =
   Some (Inr [[Fin 0]])"
  apply (simp add: sample_dim0_def the_event_dim_def Let_def minus_fl_def tf_log1p_def)
  apply (subst while_loop.simps)
  apply (simp add: cond_fn_def body_fn_def check_numerics2_def tf_where_def Let_def minus_fl_def
      tf_log1p_def)
  apply (subst while_loop.simps)
  apply (simp add: cond_fn_def)
  done

lemma degenerate_draw_sample:
  "sample_n \<lparr>mean_direction = [[Fin 0, Fin 1]], concentration = [Fin 0], event_dim = Some 2,
             validate_args = False, allow_nan_stats = True\<rparr> 1
     \<lparr>uniform_3d = [], beta_draw = (\<lambda>_. [[Fin (1 / 2)]]),
      uniform_draw = (\<lambda>_. [[Fin (1 / 2)]]), normal_draw = [[[Fin 0]]]\<rparr> =
   Some (Inr [[[Fin 0, Fin 0]]])"
  unfolding sample_n_def degenerate_loop_example
  apply (simp add: minus_fl_def assemble_def l2_normalize_def reduce_sum_def Let_def norm_fl_def)
  apply (simp add: rotate_vmf_def the_event_dim_def basis_vector_def householder_def
     l2_normalize_def reduce_sum_def Let_def minus_fl_def)
  done

lemma norm_fl_pair_less:
  "0 \<le> y \<Longrightarrow> a * a + b * b < y\<^sup>2 \<Longrightarrow> norm_fl [Fin a, Fin b] < Fin y"
  by (simp add: norm_fl_def reduce_sum_def real_less_lsqrt)

lemma near_basis_init:
  "init [[Fin (99999999999999 / 100000000000001), Fin (20000000 / 100000000000001)]] [Fin 0]
     True True False =
   Inr \<lparr>mean_direction =
          [[Fin (99999999999999 / 100000000000001), Fin (20000000 / 100000000000001)]],
        concentration = [Fin 0], event_dim = Some 2,
        validate_args = True, allow_nan_stats = False\<rparr>"
  by (simp add: init_def Let_def last_dim_def near_basis_unit assert_near_def minus_fl_def
      dtype_eps_def less_eq_fl_def)

lemma near_basis_distance:
  "sqrt (36864000000000768000000000004 / 1000000000000030000000000000300000000000001) * 100000
     < 1"
proof -
  have "sqrt (36864000000000768000000000004 / 1000000000000030000000000000300000000000001)
          < 1 / 100000"
    by (rule real_less_lsqrt) (simp_all add: power2_eq_square)
  then show ?thesis by simp
qed

lemma near_basis_sample:
  "sample_n \<lparr>mean_direction =
               [[Fin (99999999999999 / 100000000000001), Fin (20000000 / 100000000000001)]],
             concentration = [Fin 0], event_dim = Some 2,
             validate_args = True, allow_nan_stats = False\<rparr> 1
     \<lparr>uniform_3d = [], beta_draw = (\<lambda>_. [[Fin (1 / 2)]]),
      uniform_draw = (\<lambda>_. [[Fin (1 / 2)]]), normal_draw = [[[Fin 1]]]\<rparr> =
   Some (Inr [[[Fin (80000000000000000000 / 10000000000000200000000000001),
                Fin (9200000000000200000000000001 / 10000000000000200000000000001)]]])"
  unfolding sample_n_def degenerate_loop_example
  by (simp add: minus_fl_def assemble_def l2_normalize_def reduce_sum_def Let_def norm_fl_def
      assert_near_def dtype_eps_def less_eq_fl_def the_event_dim_def basis_vector_def
      near_basis_rotate near_basis_distance)

lemma near_basis_sample_norm:
  "norm_fl [Fin (80000000000000000000 / 10000000000000200000000000001),
            Fin (9200000000000200000000000001 / 10000000000000200000000000001)] <
   Fin (93 / 100)"
  by (rule norm_fl_pair_less) (simp_all add: power2_eq_square)

text \<open>
  Claim C8 says that every sample returned by \<open>sample(n, seed)\<close> has unit norm within
  \<open>1e-4\<close>, after assembly, renormalization and rotation. The source normalizes the
  assembled sample and asserts its unit norm, but it does so before \<open>_rotate\<close>, and the
  rotation does not preserve the norm for a mean direction closer than \<open>1e-6\<close> to \<open>e\<^sub>1\<close>
  (the epsilon of \<open>l2_normalize\<close> replaces the norm of \<open>e\<^sub>1 - \<mu>\<close>). With every check
  enabled (\<open>validate_args\<close> true, \<open>allow_nan_stats\<close> false), the constructor accepts the
  unit vector \<open>\<mu> = ((1 - t\<^sup>2) / (1 + t\<^sup>2), 2 t / (1 + t\<^sup>2))\<close> with \<open>t = 1e-7\<close>; with
  \<open>\<kappa> = 0\<close>, the Beta draw \<open>1/2\<close> (the candidate \<open>w = 0\<close>, which every uniform draw
  accepts) and the normal draw \<open>1\<close>, the assembled sample \<open>(0, 1)\<close> passes every assertion
  and the sample returned is about \<open>(8e-9, 0.92)\<close>, of norm below \<open>0.93\<close>. Moreover,
  with \<open>allow_nan_stats\<close> true nothing checks the norm, and \<open>l2_normalize\<close> leaves a zero
  vector as it is: for \<open>\<mu> = (0, 1)\<close> and the normal draw \<open>0\<close> the sample returned is the
  zero vector.
\<close>

theorem sample_n_norm_defect:
  "init [[Fin (99999999999999 / 100000000000001), Fin (20000000 / 100000000000001)]] [Fin 0]
     True True False =
   Inr \<lparr>mean_direction =
          [[Fin (99999999999999 / 100000000000001), Fin (20000000 / 100000000000001)]],
        concentration = [Fin 0], event_dim = Some 2,
        validate_args = True, allow_nan_stats = False\<rparr> \<and>
   sample_n \<lparr>mean_direction =
               [[Fin (99999999999999 / 100000000000001), Fin (20000000 / 100000000000001)]],
             concentration = [Fin 0], event_dim = Some 2,
             validate_args = True, allow_nan_stats = False\<rparr> 1
     \<lparr>uniform_3d = [], beta_draw = (\<lambda>_. [[Fin (1 / 2)]]),
      uniform_draw = (\<lambda>_. [[Fin (1 / 2)]]), normal_draw = [[[Fin 1]]]\<rparr> =
   Some (Inr [[[Fin (80000000000000000000 / 10000000000000200000000000001),
                Fin (9200000000000200000000000001 / 10000000000000200000000000001)]]]) \<and>
   norm_fl [Fin (80000000000000000000 / 10000000000000200000000000001),
            Fin (9200000000000200000000000001 / 10000000000000200000000000001)] <
   Fin (93 / 100) \<and>
   sample_n \<lparr>mean_direction = [[Fin 0, Fin 1]], concentration = [Fin 0], event_dim = Some 2,
             validate_args = False, allow_nan_stats = True\<rparr> 1
     \<lparr>uniform_3d = [], beta_draw = (\<lambda>_. [[Fin (1 / 2)]]),
      uniform_draw = (\<lambda>_. [[Fin (1 / 2)]]), normal_draw = [[[Fin 0]]]\<rparr> =
   Some (Inr [[[Fin 0, Fin 0]]]) \<and>
   norm_fl [Fin 0, Fin 0] = Fin 0"
  using near_basis_init near_basis_sample near_basis_sample_norm degenerate_draw_sample
  by (simp add: norm_fl_def reduce_sum_def)

text \<open>
  Away from the two degenerate cases the rotated samples have norm exactly 1, in the
  arithmetic of the embedding: when every normal draw is a finite vector of length
  \<open>D - 1\<close> and of squared norm at least \<open>1e-12\<close> (the epsilon of \<open>l2_normalize\<close>), every
  mean direction is a finite vector of length \<open>D\<close> which is \<open>e\<^sub>1\<close> or lies at a squared
  distance of at least \<open>1e-12\<close> from it, and, for the sampler of dimension 3, the
  concentrations are finite and the uniform draws lie in \<open>[0, 1)\<close>.
\<close>

proposition sample_n_unit_norm:
  assumes "sample_n d n r = Some (Inr samples)"
    and "1 \<le> the_event_dim d"
    and "list_all (\<lambda>m. length m = the_event_dim d \<and> list_all is_finite m \<and>
              (m = basis_vector (the_event_dim d) \<or>
               Fin (1 / 10 ^ 12) \<le>
                 reduce_sum (map (\<lambda>a. a * a)
                   (map2 (\<lambda>a q. a - q) (basis_vector (the_event_dim d)) m))))
            (mean_direction d)"
    and "list_all (list_all (\<lambda>g. length g = the_event_dim d - 1 \<and> list_all is_finite g \<and>
              Fin (1 / 10 ^ 12) \<le> reduce_sum (map (\<lambda>a. a * a) g))) (normal_draw r)"
    and "event_dim d = Some 3 \<longrightarrow>
           list_all is_finite (concentration d) \<and>
           list_all (list_all (\<lambda>x. \<exists>a. x = Fin a \<and> 0 \<le> a \<and> a < 1)) (uniform_3d r)"
  shows "list_all (list_all (\<lambda>s. norm_fl s = Fin 1)) samples"
proof -
  let ?n = "the_event_dim d"
  let ?U = "map (\<lambda>m. l2_normalize (map2 (\<lambda>a q. a - q) (basis_vector ?n) m)) (mean_direction d)"
  obtain sd0 where sd0: "sample_dim0 d n r = Some (Inr sd0)"
    and out: "samples = rotate_vmf d (map2 (map2 (\<lambda>u normal. l2_normalize (assemble u normal)))
                                 sd0 (normal_draw r))"
    using sample_n_returned [OF assms(1)] by blast
  have fin: "list_all (list_all is_finite) sd0"
    using sd0 assms(5) by (rule sample_dim0_finite)
  have "norm_fl row = Fin 1" if "sample \<in> set samples" "row \<in> set sample" for sample row
  proof -
    from that(1) obtain s where s:
      "s \<in> set (map2 (map2 (\<lambda>u normal. l2_normalize (assemble u normal))) sd0 (normal_draw r))"
      "sample = map2 (\<lambda>x u. householder u x) s ?U"
      unfolding out by (auto simp: rotate_vmf_def Let_def)
    from set_map2 [OF that(2) [unfolded s(2)]] obtain x u where xu:
      "x \<in> set s" "u \<in> set ?U" "row = householder u x" by blast
    from set_map2 [OF s(1)] obtain ur gr where ug:
      "ur \<in> set sd0" "gr \<in> set (normal_draw r)"
      "s = map2 (\<lambda>u normal. l2_normalize (assemble u normal)) ur gr" by blast
    from set_map2 [OF xu(1) [unfolded ug(3)]] obtain a g where ag:
      "a \<in> set ur" "g \<in> set gr" "x = l2_normalize (assemble a g)" by blast
    obtain a' where a': "a = Fin a'"
      using fin ug(1) ag(1) by (auto simp: list_all_iff is_finite_iff)
    have g: "length g = ?n - 1" "list_all is_finite g"
      "Fin (1 / 10 ^ 12) \<le> reduce_sum (map (\<lambda>a. a * a) g)"
      using assms(4) ug(2) ag(2) by (auto simp: list_all_iff)
    obtain xs where xs: "x = map Fin xs" "length xs = Suc (length g)"
      "sum_list (map2 (*) xs xs) = 1"
      using assemble_unit [OF g(2,3), of a'] unfolding ag(3) a' by blast
    from xu(2) obtain m where m: "m \<in> set (mean_direction d)"
      "u = l2_normalize (map2 (\<lambda>a q. a - q) (basis_vector ?n) m)" by auto
    have mm: "length m = ?n" "list_all is_finite m"
      "m = basis_vector ?n \<or>
         Fin (1 / 10 ^ 12) \<le>
           reduce_sum (map (\<lambda>a. a * a) (map2 (\<lambda>a q. a - q) (basis_vector ?n) m))"
      using assms(3) m(1) by (auto simp: list_all_iff)
    obtain us where us: "u = map Fin us" "length us = ?n"
      "sum_list (map2 (*) us us) = 1 \<or> (\<forall>c \<in> set us. c = 0)"
      using reflector_unit_or_zero [OF mm(2) mm(1) mm(3)] unfolding m(2) by blast
    have "length xs = length us" using xs(2) g(1) us(2) assms(2) by simp
    from householder_norm_reals [OF this us(3)] obtain ys where
      "householder (map Fin us) (map Fin xs) = map Fin ys"
      "sum_list (map2 (*) ys ys) = sum_list (map2 (*) xs xs)" by blast
    then show ?thesis unfolding xu(3) us(1) xs(1) using xs(3) by (simp add: norm_fl_reals)
  qed
  then show ?thesis by (simp add: list_all_iff)
qed


lemma loop_example:
  "sample_dim0 \<lparr>mean_direction = [[Fin 1, Fin 0]], concentration = [Fin 0], event_dim = Some 2,
                validate_args = False, allow_nan_stats = True\<rparr> 1
     \<lparr>uniform_3d = [], beta_draw = (\<lambda>_. [[Fin (1 / 4)]]),
      uniform_draw = (\<lambda>_. [[Fin (1 / 2)]]), normal_draw = [[[Fin 1]]]\<rparr> =
   Some (Inr [[Fin (1 / 2)]])"
  apply (simp add: sample_dim0_def the_event_dim_def Let_def minus_fl_def tf_log1p_def)
  apply (subst while_loop.simps)
  apply (simp add: cond_fn_def body_fn_def check_numerics2_def tf_where_def Let_def minus_fl_def
      tf_log1p_def)
  apply (subst while_loop.simps)
  apply (simp add: cond_fn_def)
  done

text \<open>
  Two instances: one sample in dimension 2, where the loop accepts the first candidate,
  and one in dimension 3.
\<close>

proposition sample_n_unit_norm_instance:
  "(\<exists>s. sample_n \<lparr>mean_direction = [[Fin 1, Fin 0]], concentration = [Fin 0],
                   event_dim = Some 2, validate_args = False, allow_nan_stats = True\<rparr> 1
           \<lparr>uniform_3d = [], beta_draw = (\<lambda>_. [[Fin (1 / 4)]]),
            uniform_draw = (\<lambda>_. [[Fin (1 / 2)]]), normal_draw = [[[Fin 1]]]\<rparr> = Some (Inr s) \<and>
        list_all (list_all (\<lambda>s. norm_fl s = Fin 1)) s) \<and>
   (\<exists>s. sample_n \<lparr>mean_direction = [[Fin 0, Fin 1, Fin 0]], concentration = [Fin 0],
                   event_dim = Some 3, validate_args = False, allow_nan_stats = True\<rparr> 1
           \<lparr>uniform_3d = [[Fin (1 / 2)]], beta_draw = (\<lambda>_. []), uniform_draw = (\<lambda>_. []),
            normal_draw = [[[Fin 1, Fin 0]]]\<rparr> = Some (Inr s) \<and>
        list_all (list_all (\<lambda>s. norm_fl s = Fin 1)) s)"
proof
  let ?d = "\<lparr>mean_direction = [[Fin 1, Fin 0]], concentration = [Fin 0],
                   event_dim = Some 2, validate_args = False, allow_nan_stats = True\<rparr>"
  let ?r = "\<lparr>uniform_3d = [], beta_draw = (\<lambda>_. [[Fin (1 / 4)]]),
            uniform_draw = (\<lambda>_. [[Fin (1 / 2)]]), normal_draw = [[[Fin 1]]]\<rparr>"
  have "\<exists>s. sample_n ?d 1 ?r = Some (Inr s)"
    unfolding sample_n_def loop_example by simp
  then obtain s where s: "sample_n ?d 1 ?r = Some (Inr s)" ..
  have "list_all (list_all (\<lambda>s. norm_fl s = Fin 1)) s"
    by (rule sample_n_unit_norm [OF s])
      (simp_all add: the_event_dim_def basis_vector_def reduce_sum_def)
  with s show "\<exists>s. sample_n ?d 1 ?r = Some (Inr s) \<and>
        list_all (list_all (\<lambda>s. norm_fl s = Fin 1)) s" by blast
next
  let ?d = "\<lparr>mean_direction = [[Fin 0, Fin 1, Fin 0]], concentration = [Fin 0],
                   event_dim = Some 3, validate_args = False, allow_nan_stats = True\<rparr>"
  let ?r = "\<lparr>uniform_3d = [[Fin (1 / 2)]], beta_draw = (\<lambda>_. []), uniform_draw = (\<lambda>_. []),
            normal_draw = [[[Fin 1, Fin 0]]]\<rparr>"
  have "\<exists>s. sample_n ?d 1 ?r = Some (Inr s)"
    by (simp add: sample_n_def sample_dim0_def sample_3d_lanes Let_def)
  then obtain s where s: "sample_n ?d 1 ?r = Some (Inr s)" ..
  have q: "\<exists>a::real. Fin (1 / 2) = Fin a \<and> 0 \<le> a \<and> a < 1"
    by (intro exI [of _ "1 / 2"]) simp
  have "list_all (list_all (\<lambda>s. norm_fl s = Fin 1)) s"
    by (rule sample_n_unit_norm [OF s])
      (use q in \<open>simp_all add: the_event_dim_def basis_vector_def reduce_sum_def minus_fl_def
         numeral_eq_Suc\<close>)
  with s show "\<exists>s. sample_n ?d 1 ?r = Some (Inr s) \<and>
        list_all (list_all (\<lambda>s. norm_fl s = Fin 1)) s" by blast
qed

end
